theory Spec2Isabelle
  imports Complex_Main "HOL-Library.Multiset" "HOL-Library.Log_Nat"
begin

section \<open>The host language: numbers and dates\<close>

text \<open>
  The program is TypeScript. A time value (the milliseconds since the epoch held by a
  \<^verbatim>\<open>Date\<close>) is an \<^typ>\<open>int\<close>, and every record is taken to hold a date the
  \<^verbatim>\<open>Date\<close> constructor accepts. Means and quotients of time values are exact
  \<^typ>\<open>real\<close> numbers. The duration that ranks the entries of a day is compared for
  strict order, where one unit in the last place decides, so there every operation is
  rounded to a double as the program rounds it.
\<close>

text \<open>The remainder operator \<^verbatim>\<open>a % b\<close>: the result has the sign of the dividend.\<close>

definition js_rem :: "int \<Rightarrow> int \<Rightarrow> int" where
  "js_rem a b = (if a < 0 then - ((- a) mod \<bar>b\<bar>) else a mod \<bar>b\<bar>)"

text \<open>Truncation toward zero, as \<^verbatim>\<open>TimeClip\<close> applies it to every time value stored in a
  \<^verbatim>\<open>Date\<close>, and as \<^verbatim>\<open>%\<close> uses it on fractional operands.\<close>

definition js_trunc :: "real \<Rightarrow> int" where
  "js_trunc x = (if x < 0 then \<lceil>x\<rceil> else \<lfloor>x\<rfloor>)"

definition js_fmod :: "real \<Rightarrow> real \<Rightarrow> real" where
  "js_fmod x d = x - d * of_int (js_trunc (x / d))"

text \<open>\<^verbatim>\<open>Math.round\<close>: the nearest integer, a tie going toward plus infinity.\<close>

definition Math_round :: "real \<Rightarrow> int" where
  "Math_round x = \<lfloor>x + 1 / 2\<rfloor>"

text \<open>The result of a division whose divisor may be zero.\<close>

datatype jsnum = Num real | NaN | PosInfinity | NegInfinity

definition js_divide :: "real \<Rightarrow> real \<Rightarrow> jsnum" where
  "js_divide a b =
     (if b = 0 then (if a = 0 then NaN else if 0 < a then PosInfinity else NegInfinity)
      else Num (a / b))"

text \<open>
  Rounding to a double: to the nearest number with 53 significant bits, a tie going to
  the even one. The exponent range of doubles is left out: every value rounded here is 0
  or lies between \<open>2\<^sup>-\<^sup>1\<^sup>0\<^sup>2\<^sup>2\<close> and \<open>2\<^sup>1\<^sup>0\<^sup>2\<^sup>4\<close> in magnitude.
\<close>

definition pow2 :: "int \<Rightarrow> real" where
  "pow2 e = (if 0 \<le> e then 2 ^ nat e else 1 / 2 ^ nat (- e))"

definition round_half_even :: "real \<Rightarrow> int" where
  "round_half_even y =
     (let n = \<lfloor>y\<rfloor>; r = y - real_of_int n
      in if r < 1 / 2 then n else if 1 / 2 < r then n + 1 else if even n then n else n + 1)"

text \<open>The binade of a positive number \<open>a\<close>: the exponent \<open>e\<close> with \<open>2\<^sup>e \<le> a < 2\<^sup>e\<^sup>+\<^sup>1\<close>.\<close>

definition binade :: "real \<Rightarrow> int" where
  "binade a = (if 1 \<le> a then bitlen \<lfloor>a\<rfloor> - 1 else - bitlen (\<lceil>1 / a\<rceil> - 1))"

definition to_double :: "real \<Rightarrow> real" where
  "to_double x =
     (if x = 0 then 0
      else let ulp = pow2 (binade \<bar>x\<bar> - 52)
           in real_of_int (round_half_even (x / ulp)) * ulp)"

text \<open>
  An ISO-8601 date-time string is kept in parsed form: \<open>wall\<close> is the civil date and time
  the string spells, counted in milliseconds from 1970-01-01T00:00 of the string's own
  zone, and \<open>zone\<close> is the offset of its zone designator in milliseconds (\<open>Some 0\<close> for
  \<^verbatim>\<open>Z\<close>, \<open>Some (- 18000000)\<close> for \<^verbatim>\<open>-05:00\<close>), or \<open>None\<close> when the string has no
  designator and is read in the host's zone. A calendar date is represented by its day
  number, the count of days since 1970-01-01.
\<close>

record isotime =
  wall :: int
  zone :: "int option"

text \<open>
  The local zone of the host, the parameter \<open>tz\<close> here and below, is given by its two
  offsets from UTC, in milliseconds: \<open>utcOffset tz t\<close> is the offset in force at the instant
  \<open>t\<close>, which takes a time value to local time, and \<open>localOffset tz l\<close> is the offset
  by which the local time \<open>l\<close> is read back as an instant. Both may change from one
  moment to another, as they do where daylight saving is kept; nothing is assumed of a
  local time that a change skips or repeats. A zone with one offset throughout is
  \<open>fixedZone\<close>, and \<open>utc\<close> is the zone of offset 0.
\<close>

record hostzone =
  utcOffset :: "int \<Rightarrow> int"
  localOffset :: "int \<Rightarrow> int"

definition fixedZone :: "int \<Rightarrow> hostzone" where
  "fixedZone c = \<lparr>utcOffset = (\<lambda>t. c), localOffset = (\<lambda>l. c)\<rparr>"

definition utc :: hostzone where
  "utc = fixedZone 0"

text \<open>\<^verbatim>\<open>new Date(s).getTime()\<close>: a string without a zone designator spells a local
  time.\<close>

definition Date_new :: "hostzone \<Rightarrow> isotime \<Rightarrow> int" where
  "Date_new tz s =
     wall s - (case zone s of Some off \<Rightarrow> off | None \<Rightarrow> localOffset tz (wall s))"

definition toISOString :: "int \<Rightarrow> isotime" where
  "toISOString t = \<lparr>wall = t, zone = Some 0\<rparr>"

text \<open>The date part of an ISO string, \<^verbatim>\<open>s.split('T')[0]\<close>, as a day number.\<close>

definition isoDate :: "isotime \<Rightarrow> int" where
  "isoDate s = wall s div 86400000"

text \<open>\<^verbatim>\<open>getHours()\<close> and \<^verbatim>\<open>getMinutes()\<close> read the local time of a time value.\<close>

definition getHours :: "hostzone \<Rightarrow> int \<Rightarrow> int" where
  "getHours tz t = ((t + utcOffset tz t) div 3600000) mod 24"

definition getMinutes :: "hostzone \<Rightarrow> int \<Rightarrow> int" where
  "getMinutes tz t = ((t + utcOffset tz t) div 60000) mod 60"

text \<open>\<^verbatim>\<open>setHours(h)\<close> and \<^verbatim>\<open>setMinutes(m)\<close> take the local time of the time value,
  replace one field of it and keep the others, and read the result back as an instant.\<close>

definition setHours :: "hostzone \<Rightarrow> int \<Rightarrow> int \<Rightarrow> int" where
  "setHours tz h t =
     (let local = t + utcOffset tz t;
          date = (local div 86400000) * 86400000 + h * 3600000 + local mod 3600000
      in date - localOffset tz date)"

definition setMinutes :: "hostzone \<Rightarrow> int \<Rightarrow> int \<Rightarrow> int" where
  "setMinutes tz m t =
     (let local = t + utcOffset tz t;
          date = (local div 3600000) * 3600000 + m * 60000 + local mod 60000
      in date - localOffset tz date)"

section \<open>The data model\<close>

text \<open>A rating is a whole number, 1 to 5 in the data the program reads. The field
  \<^verbatim>\<open>note\<close> is \<open>note_text\<close> here.\<close>

record SleepRecord =
  sleep :: isotime
  wake :: isotime
  rating :: int
  note_text :: string

record PredictedSleepRecord = SleepRecord +
  isPredicted :: bool

record DriftResult =
  sleepDrift :: real
  wakeDrift :: real
  avgRating :: real

section \<open>calculateDrift\<close>

definition HOURS_IN_DAY :: int where
  "HOURS_IN_DAY = 24 * 60 * 60 * 1000"

text \<open>One round of the loop over consecutive entries, on the three running totals.\<close>

definition calculateDrift_body ::
  "hostzone \<Rightarrow> SleepRecord list \<Rightarrow> nat \<Rightarrow> int \<times> int \<times> int \<Rightarrow> int \<times> int \<times> int" where
  "calculateDrift_body tz entries i acc =
     (case acc of (totalSleepDrift, totalWakeDrift, totalRating) \<Rightarrow>
      let prevSleepTime = Date_new tz (sleep (entries ! (i - 1)));
          currSleepTime = Date_new tz (sleep (entries ! i));
          prevWakeTime = Date_new tz (wake (entries ! (i - 1)));
          currWakeTime = Date_new tz (wake (entries ! i));
          sleepDiff = currSleepTime - prevSleepTime;
          wakeDiff = currWakeTime - prevWakeTime;
          sleepDiff = js_rem (js_rem sleepDiff HOURS_IN_DAY + HOURS_IN_DAY) HOURS_IN_DAY;
          wakeDiff = js_rem (js_rem wakeDiff HOURS_IN_DAY + HOURS_IN_DAY) HOURS_IN_DAY;
          sleepDiff = (if sleepDiff > 12 * 60 * 60 * 1000 then sleepDiff - HOURS_IN_DAY
                       else sleepDiff);
          wakeDiff = (if wakeDiff > 12 * 60 * 60 * 1000 then wakeDiff - HOURS_IN_DAY
                      else wakeDiff)
      in (totalSleepDrift + sleepDiff, totalWakeDrift + wakeDiff,
          totalRating + rating (entries ! i)))"

function calculateDrift_loop ::
  "hostzone \<Rightarrow> SleepRecord list \<Rightarrow> nat \<Rightarrow> int \<times> int \<times> int \<Rightarrow> int \<times> int \<times> int" where
  "calculateDrift_loop tz entries i acc =
     (if i < length entries
      then calculateDrift_loop tz entries (Suc i) (calculateDrift_body tz entries i acc)
      else acc)"
  by pat_completeness auto
termination
  by (relation "measure (\<lambda>(tz, entries, i, acc). length entries - i)") auto

declare calculateDrift_loop.simps [simp del]

definition calculateDrift :: "hostzone \<Rightarrow> SleepRecord list \<Rightarrow> DriftResult" where
  "calculateDrift tz entries =
     (if length entries < 2
      then \<lparr>sleepDrift = 30 * 60 * 1000, wakeDrift = 30 * 60 * 1000, avgRating = 3\<rparr>
      else (case calculateDrift_loop tz entries 1 (0, 0, 0) of
              (totalSleepDrift, totalWakeDrift, totalRating) \<Rightarrow>
                \<lparr>sleepDrift = real_of_int totalSleepDrift / real (length entries - 1),
                 wakeDrift = real_of_int totalWakeDrift / real (length entries - 1),
                 avgRating = real_of_int totalRating / real (length entries)\<rparr>))"

text \<open>The rule of the specification, in its words: the raw difference is normalized into
  \<open>[0, 24h)\<close> by \<open>((x mod 24h) + 24h) mod 24h\<close>, with the mathematical modulo, and 24h is
  subtracted when the normalized value exceeds 12h.\<close>

definition spec_normalize :: "int \<Rightarrow> int" where
  "spec_normalize x = ((x mod 86400000) + 86400000) mod 86400000"

definition spec_fold :: "int \<Rightarrow> int" where
  "spec_fold x = (let n = spec_normalize x in if n > 43200000 then n - 86400000 else n)"

text \<open>The folded drift of the pair \<open>(k - 1, k)\<close> of a list, on the sleep or the wake field.\<close>

definition pairDrift ::
  "(SleepRecord \<Rightarrow> isotime) \<Rightarrow> hostzone \<Rightarrow> SleepRecord list \<Rightarrow> nat \<Rightarrow> int" where
  "pairDrift field tz entries k =
     spec_fold (Date_new tz (field (entries ! k)) - Date_new tz (field (entries ! (k - 1))))"

section \<open>Grouping the records by day\<close>

text \<open>
  A \<^verbatim>\<open>Map<string, SleepRecord[]>\<close> is an association list in insertion order, as
  \<^verbatim>\<open>Map.forEach\<close> visits it; its keys are date strings, held as day numbers.
\<close>

definition Map_has :: "(int \<times> 'v) list \<Rightarrow> int \<Rightarrow> bool" where
  "Map_has m k = (map_of m k \<noteq> None)"

fun Map_set :: "int \<Rightarrow> 'v \<Rightarrow> (int \<times> 'v) list \<Rightarrow> (int \<times> 'v) list" where
  "Map_set k v [] = [(k, v)]"
| "Map_set k v ((k', v') # m) = (if k' = k then (k, v) # m else (k', v') # Map_set k v m)"

text \<open>\<^verbatim>\<open>new Date(record.sleep).toISOString().split('T')[0]\<close>\<close>

definition dateStr :: "hostzone \<Rightarrow> SleepRecord \<Rightarrow> int" where
  "dateStr tz record = isoDate (toISOString (Date_new tz (sleep record)))"

text \<open>The body of the \<^verbatim>\<open>forEach\<close> that files one record under its day; the program has
  it three times, each on a fresh map.\<close>

definition entriesByDay_add ::
  "hostzone \<Rightarrow> (int \<times> SleepRecord list) list \<Rightarrow> SleepRecord \<Rightarrow> (int \<times> SleepRecord list) list" where
  "entriesByDay_add tz entriesByDay record =
     (let key = dateStr tz record;
          entriesByDay = (if \<not> Map_has entriesByDay key then Map_set key [] entriesByDay
                          else entriesByDay)
      in case map_of entriesByDay key of
           None \<Rightarrow> entriesByDay
         | Some entries \<Rightarrow> Map_set key (entries @ [record]) entriesByDay)"

definition entriesByDay :: "hostzone \<Rightarrow> SleepRecord list \<Rightarrow> (int \<times> SleepRecord list) list" where
  "entriesByDay tz data = foldl (entriesByDay_add tz) [] data"

section \<open>getMainSleepEntries\<close>

text \<open>The duration by which the entries of a day are ranked, in hours: a double, each
  division, sum and difference rounded.\<close>

definition entryDuration :: "hostzone \<Rightarrow> SleepRecord \<Rightarrow> real" where
  "entryDuration tz entry =
     (let sleepTime = Date_new tz (sleep entry);
          wakeTime = Date_new tz (wake entry);
          sleepHour = to_double (real_of_int (getHours tz sleepTime)
                        + to_double (real_of_int (getMinutes tz sleepTime) / 60));
          wakeHour = to_double (real_of_int (getHours tz wakeTime)
                       + to_double (real_of_int (getMinutes tz wakeTime) / 60));
          wakeHour = (if wakeHour < sleepHour then to_double (wakeHour + 24) else wakeHour)
      in to_double (wakeHour - sleepHour))"

definition longest_step :: "hostzone \<Rightarrow> real \<times> SleepRecord \<Rightarrow> SleepRecord \<Rightarrow> real \<times> SleepRecord" where
  "longest_step tz acc entry =
     (case acc of (longestDuration, longestEntry) \<Rightarrow>
      let duration = entryDuration tz entry
      in if duration > longestDuration then (duration, entry)
         else (longestDuration, longestEntry))"

text \<open>What one day contributes to \<^verbatim>\<open>mainSleepEntries\<close>: \<open>None\<close> when the callback returns
  without pushing.\<close>

definition mainSleepOfDay :: "hostzone \<Rightarrow> SleepRecord list \<Rightarrow> SleepRecord option" where
  "mainSleepOfDay tz entries =
     (if length entries = 0 then None
      else if length entries = 1 then Some (entries ! 0)
      else Some (snd (foldl (longest_step tz) (0, entries ! 0) entries)))"

text \<open>\<^verbatim>\<open>xs.slice(-n)\<close> for a count \<open>n\<close>; \<^verbatim>\<open>slice(-0)\<close> is \<^verbatim>\<open>slice(0)\<close>, the whole array.\<close>

definition slice_last :: "nat \<Rightarrow> 'a list \<Rightarrow> 'a list" where
  "slice_last n xs = (if n = 0 then xs else drop (length xs - n) xs)"

definition getMainSleepEntries :: "hostzone \<Rightarrow> nat \<Rightarrow> SleepRecord list \<Rightarrow> SleepRecord list" where
  "getMainSleepEntries tz averagingDays data =
     (let mainSleepEntries = List.map_filter (mainSleepOfDay tz) (map snd (entriesByDay tz data));
          mainSleepEntries = sort_key (\<lambda>e. Date_new tz (sleep e)) mainSleepEntries;
          uniqueDatesCount = length (remdups (map (dateStr tz) mainSleepEntries))
      in if averagingDays < uniqueDatesCount \<and> length mainSleepEntries > averagingDays
         then slice_last averagingDays mainSleepEntries
         else mainSleepEntries)"

section \<open>updateNon24Info\<close>

text \<open>The fields of the component that the computations read. The setters accept whole
  numbers only, from 0 up for \<open>maxEntries\<close> and \<open>predictionDays\<close> and from 1 up for
  \<open>averagingDays\<close>; the defaults are 90, 30 and 14.\<close>

record SleepChart =
  sleepData :: "SleepRecord list"
  maxEntries :: nat
  showPredictions :: bool
  predictionDays :: nat
  averagingDays :: nat

text \<open>The cycle length, in days.\<close>

definition adjustedDrift :: "real \<Rightarrow> real" where
  "adjustedDrift totalDrift =
     (let driftPerDay = js_fmod totalDrift (real_of_int HOURS_IN_DAY)
      in if driftPerDay = 0 then totalDrift else driftPerDay)"

definition cycleDays :: "real \<Rightarrow> int" where
  "cycleDays totalDrift =
     (let adjusted = adjustedDrift totalDrift
      in if \<bar>adjusted\<bar> < 60000 then 0
         else \<bar>Math_round (real_of_int HOURS_IN_DAY / adjusted)\<bar>)"



text \<open>The chart shows the last \<open>maxEntries\<close> records, or all of them.\<close>

definition displayedData :: "SleepChart \<Rightarrow> SleepRecord list" where
  "displayedData chart =
     (if maxEntries chart > 0 \<and> length (sleepData chart) > maxEntries chart
      then slice_last (maxEntries chart) (sleepData chart)
      else sleepData chart)"

text \<open>The average sleep per day. The total sleep time of one day of the map, and the
  callback that adds a day to the running total and to the count of days.\<close>

definition daySleepTime :: "hostzone \<Rightarrow> SleepRecord list \<Rightarrow> int" where
  "daySleepTime tz entries =
     foldl (\<lambda>totalSleepTimeForDay entry.
              let sleepTime = Date_new tz (sleep entry);
                  wakeTime = Date_new tz (wake entry);
                  sleepDuration = wakeTime - sleepTime
              in totalSleepTimeForDay + sleepDuration) 0 entries"

definition addDay :: "hostzone \<Rightarrow> int \<times> nat \<Rightarrow> int \<times> SleepRecord list \<Rightarrow> int \<times> nat" where
  "addDay tz acc day =
     (case acc of (totalSleepTimeAllDays, dayCount) \<Rightarrow>
      case day of (key, entries) \<Rightarrow>
        (totalSleepTimeAllDays + daySleepTime tz entries, dayCount + 1))"

text \<open>
  What updateNon24Info computes as \<^verbatim>\<open>avgSleepPerDayMs\<close> from \<open>records\<close>, the
  \<^verbatim>\<open>sleepData\<close> the component holds. The method returns at its first statement when the info box is missing from
  the page (\<open>infoBox\<close> false) or fewer than two records are held; then nothing is
  computed, which is \<open>None\<close>.
\<close>

definition avgSleepPerDayMs :: "hostzone \<Rightarrow> bool \<Rightarrow> SleepRecord list \<Rightarrow> jsnum option" where
  "avgSleepPerDayMs tz infoBox records =
     (if \<not> infoBox \<or> length records < 2 then None
      else case foldl (addDay tz) (0, 0) (entriesByDay tz records) of
             (totalSleepTimeAllDays, dayCount) \<Rightarrow>
               Some (js_divide (real_of_int totalSleepTimeAllDays) (real dayCount)))"

record Non24Info =
  cycleLength :: int
  totalDrift :: real
  visualizedDrift :: real
  avgSleepPerDay :: jsnum
  avgSleepPerDayVisible :: jsnum

text \<open>All the figures the info box shows; \<open>None\<close> is the early return.\<close>

definition updateNon24Info :: "hostzone \<Rightarrow> bool \<Rightarrow> SleepChart \<Rightarrow> Non24Info option" where
  "updateNon24Info tz infoBox chart =
     (if \<not> infoBox \<or> length (sleepData chart) < 2 then None
      else
        let allDriftData =
              calculateDrift tz (getMainSleepEntries tz (averagingDays chart) (sleepData chart));
            displayedDriftData =
              calculateDrift tz (getMainSleepEntries tz (averagingDays chart) (displayedData chart))
        in Some \<lparr>cycleLength = cycleDays (sleepDrift allDriftData),
                 totalDrift = sleepDrift allDriftData,
                 visualizedDrift = sleepDrift displayedDriftData,
                 avgSleepPerDay =
                   (case foldl (addDay tz) (0, 0) (entriesByDay tz (sleepData chart)) of
                      (totalSleepTimeAllDays, dayCount) \<Rightarrow>
                        js_divide (real_of_int totalSleepTimeAllDays) (real dayCount)),
                 avgSleepPerDayVisible =
                   (case foldl (addDay tz) (0, 0) (entriesByDay tz (displayedData chart)) of
                      (totalSleepTimeVisibleDays, visibleDayCount) \<Rightarrow>
                        js_divide (real_of_int totalSleepTimeVisibleDays)
                          (real visibleDayCount))\<rparr>)"

section \<open>generatePredictions\<close>

datatype js_error = TypeError

text \<open>One round of the prediction loop: the predicted entry and the wake time handed to
  the next round. The time value of a \<^verbatim>\<open>Date\<close> is a whole number of milliseconds, so
  \<^verbatim>\<open>setTime\<close> and the constructor truncate what they are given.\<close>

definition prediction_step ::
  "hostzone \<Rightarrow> int \<Rightarrow> int \<Rightarrow> DriftResult \<Rightarrow> real \<Rightarrow> nat \<Rightarrow> int \<Rightarrow> PredictedSleepRecord \<times> int" where
  "prediction_step tz lastSleepHour lastSleepMinute visibleDriftData avgSleepDuration i prevWakeTime =
     (let nextDate = prevWakeTime + HOURS_IN_DAY;
          nextWakeTime = setMinutes tz lastSleepMinute (setHours tz lastSleepHour nextDate);
          driftAmount = sleepDrift visibleDriftData * real (i + 1);
          nextWakeTime = js_trunc (real_of_int nextWakeTime + driftAmount);
          nextSleepTime = js_trunc (real_of_int nextWakeTime - avgSleepDuration)
      in (\<lparr>sleep = toISOString nextSleepTime, wake = toISOString nextWakeTime,
           rating = Math_round (avgRating visibleDriftData), note_text = ''Predicted entry'',
           isPredicted = True\<rparr>,
          nextWakeTime))"

function predictions_loop ::
  "hostzone \<Rightarrow> int \<Rightarrow> int \<Rightarrow> DriftResult \<Rightarrow> real \<Rightarrow> nat \<Rightarrow> nat \<Rightarrow> int \<Rightarrow>
   PredictedSleepRecord list \<Rightarrow> PredictedSleepRecord list" where
  "predictions_loop tz h m drift avgSleepDuration days i prevWakeTime predictions =
     (if i < days
      then (case prediction_step tz h m drift avgSleepDuration i prevWakeTime of
              (predictedEntry, nextWakeTime) \<Rightarrow>
                predictions_loop tz h m drift avgSleepDuration days (Suc i) nextWakeTime
                  (predictions @ [predictedEntry]))
      else predictions)"
  by pat_completeness auto
termination
  by (relation "measure (\<lambda>(tz, h, m, drift, avg, days, i, prev, ps). days - i)") auto

declare predictions_loop.simps [simp del]

text \<open>
  What generatePredictions does once it holds the main sleep entries of the displayed
  data, from the drift calculation to the return: the drift, the average sleep
  duration, the last entry as seed, and the loop over the prediction days. Reading the
  last entry of an empty list is a \<^verbatim>\<open>TypeError\<close>.
\<close>

definition predictFrom ::
  "hostzone \<Rightarrow> nat \<Rightarrow> SleepRecord list \<Rightarrow> js_error + PredictedSleepRecord list" where
  "predictFrom tz days displayedMainSleepEntries =
     (let visibleDriftData = calculateDrift tz displayedMainSleepEntries;
          totalSleepDuration =
            foldl (\<lambda>total entry. total + (Date_new tz (wake entry) - Date_new tz (sleep entry)))
              0 displayedMainSleepEntries;
          avgSleepDuration =
            real_of_int totalSleepDuration / real (length displayedMainSleepEntries)
      in if displayedMainSleepEntries = [] then Inl TypeError
         else
           let lastVisibleEntry =
                 displayedMainSleepEntries ! (length displayedMainSleepEntries - 1);
               lastWakeTime = Date_new tz (wake lastVisibleEntry);
               lastSleepTime = Date_new tz (sleep lastVisibleEntry);
               lastSleepHour = getHours tz lastSleepTime;
               lastSleepMinute = getMinutes tz lastSleepTime
           in Inr (predictions_loop tz lastSleepHour lastSleepMinute visibleDriftData
                     avgSleepDuration days 0 lastWakeTime []))"

definition generatePredictions ::
  "hostzone \<Rightarrow> SleepChart \<Rightarrow> js_error + PredictedSleepRecord list" where
  "generatePredictions tz chart =
     (if length (sleepData chart) = 0 \<or> \<not> showPredictions chart \<or> predictionDays chart = 0
      then Inr []
      else if length (getMainSleepEntries tz (averagingDays chart) (sleepData chart)) = 0
      then Inr []
      else predictFrom tz (predictionDays chart)
             (getMainSleepEntries tz (averagingDays chart) (displayedData chart)))"

section \<open>Notions used in the statements\<close>

text \<open>What grouping establishes: distinct keys, every record filed once, and filed under
  the key of its own sleep date.\<close>

definition grouped ::
  "hostzone \<Rightarrow> (int \<times> SleepRecord list) list \<Rightarrow> SleepRecord list \<Rightarrow> bool" where
  "grouped tz g data \<longleftrightarrow>
     distinct (map fst g) \<and> mset (concat (map snd g)) = mset data
     \<and> (\<forall>(k, es) \<in> set g. es \<noteq> [] \<and> (\<forall>r \<in> set es. dateStr tz r = k))"

text \<open>The ranking duration as a function of the four clock readings alone: the hour and
  the minute of the sleep time, the hour and the minute of the wake time.\<close>

definition clockDuration :: "int \<Rightarrow> int \<Rightarrow> int \<Rightarrow> int \<Rightarrow> real" where
  "clockDuration sh sm wh wm =
     (let sleepHour = to_double (real_of_int sh + to_double (real_of_int sm / 60));
          wakeHour = to_double (real_of_int wh + to_double (real_of_int wm / 60));
          wakeHour = (if wakeHour < sleepHour then to_double (wakeHour + 24) else wakeHour)
      in to_double (wakeHour - sleepHour))"

text \<open>The list the prediction loop builds in \<open>n\<close> further rounds, from round \<open>i\<close> on.\<close>

fun predictions_from ::
  "hostzone \<Rightarrow> int \<Rightarrow> int \<Rightarrow> DriftResult \<Rightarrow> real \<Rightarrow> nat \<Rightarrow> nat \<Rightarrow> int \<Rightarrow>
   PredictedSleepRecord list" where
  "predictions_from tz h m drift avgSleepDuration 0 i prevWakeTime = []"
| "predictions_from tz h m drift avgSleepDuration (Suc n) i prevWakeTime =
     fst (prediction_step tz h m drift avgSleepDuration i prevWakeTime)
       # predictions_from tz h m drift avgSleepDuration n (Suc i)
           (snd (prediction_step tz h m drift avgSleepDuration i prevWakeTime))"

text \<open>The quantities a prediction starts from, for a list of main sleep entries: the last
  entry (the seed), the drift and the average sleep duration computed from the list,
  the wake time a round builds on, and the time anchored to the seed pattern.\<close>

definition seedEntry :: "SleepRecord list \<Rightarrow> SleepRecord" where
  "seedEntry entries = entries ! (length entries - 1)"

definition visibleDrift :: "hostzone \<Rightarrow> SleepRecord list \<Rightarrow> real" where
  "visibleDrift tz entries = sleepDrift (calculateDrift tz entries)"

definition avgSleepDurationOf :: "hostzone \<Rightarrow> SleepRecord list \<Rightarrow> real" where
  "avgSleepDurationOf tz entries =
     real_of_int (\<Sum>e\<leftarrow>entries. Date_new tz (wake e) - Date_new tz (sleep e))
       / real (length entries)"

definition prevWakeOf ::
  "hostzone \<Rightarrow> SleepRecord list \<Rightarrow> PredictedSleepRecord list \<Rightarrow> nat \<Rightarrow> int" where
  "prevWakeOf tz entries ps i =
     (if i = 0 then Date_new tz (wake (seedEntry entries))
      else Date_new tz (wake (ps ! (i - 1))))"

definition anchoredTime :: "hostzone \<Rightarrow> SleepRecord list \<Rightarrow> int \<Rightarrow> int" where
  "anchoredTime tz entries prevWakeTime =
     setMinutes tz (getMinutes tz (Date_new tz (sleep (seedEntry entries))))
       (setHours tz (getHours tz (Date_new tz (sleep (seedEntry entries))))
          (prevWakeTime + 86400000))"

section \<open>Sample records\<close>

text \<open>Four nights in UTC, all rated 5 and eight hours long. The first three begin at
  1970-01-01 00:00, at 00:30 the next day, and at 01:00:00.001 the day after; the fourth
  is another third night, beginning at 01:01.\<close>

definition night1 :: SleepRecord where
  "night1 = \<lparr>sleep = \<lparr>wall = 0, zone = Some 0\<rparr>, wake = \<lparr>wall = 28800000, zone = Some 0\<rparr>,
              rating = 5, note_text = []\<rparr>"

definition night2 :: SleepRecord where
  "night2 = \<lparr>sleep = \<lparr>wall = 88200000, zone = Some 0\<rparr>,
              wake = \<lparr>wall = 117000000, zone = Some 0\<rparr>, rating = 5, note_text = []\<rparr>"

definition night3 :: SleepRecord where
  "night3 = \<lparr>sleep = \<lparr>wall = 176400001, zone = Some 0\<rparr>,
              wake = \<lparr>wall = 205200001, zone = Some 0\<rparr>, rating = 5, note_text = []\<rparr>"

definition night3_at_0101 :: SleepRecord where
  "night3_at_0101 = \<lparr>sleep = \<lparr>wall = 176460000, zone = Some 0\<rparr>,
                      wake = \<lparr>wall = 205260000, zone = Some 0\<rparr>, rating = 5, note_text = []\<rparr>"

text \<open>The shape of a predicted entry rated 3.\<close>

definition predicted :: "int \<Rightarrow> int \<Rightarrow> PredictedSleepRecord" where
  "predicted s w = \<lparr>sleep = toISOString s, wake = toISOString w, rating = 3,
                     note_text = ''Predicted entry'', isPredicted = True\<rparr>"

text \<open>A night that begins at 2024-01-01T23:30-05:00 and ends at 06:00-05:00.\<close>

definition late_evening :: SleepRecord where
  "late_evening = \<lparr>sleep = \<lparr>wall = 1704151800000, zone = Some (- 18000000)\<rparr>,
                    wake = \<lparr>wall = 1704175200000, zone = Some (- 18000000)\<rparr>,
                    rating = 3, note_text = []\<rparr>"

text \<open>Seven hours from 2024-01-01T00:00Z, and nine hours from 2024-01-02T00:00Z.\<close>

definition seven_hours :: SleepRecord where
  "seven_hours = \<lparr>sleep = \<lparr>wall = 1704067200000, zone = Some 0\<rparr>,
                   wake = \<lparr>wall = 1704092400000, zone = Some 0\<rparr>,
                   rating = 3, note_text = []\<rparr>"

definition nine_hours :: SleepRecord where
  "nine_hours = \<lparr>sleep = \<lparr>wall = 1704153600000, zone = Some 0\<rparr>,
                  wake = \<lparr>wall = 1704186000000, zone = Some 0\<rparr>,
                  rating = 3, note_text = []\<rparr>"

text \<open>Naps of 2024-01-01 in UTC: from 01:00 to 03:00, from 03:10 to 05:10, and from
  05:00:59 to 07:00:00.\<close>

definition nap_two_hours :: SleepRecord where
  "nap_two_hours = \<lparr>sleep = \<lparr>wall = 1704070800000, zone = Some 0\<rparr>,
                     wake = \<lparr>wall = 1704078000000, zone = Some 0\<rparr>,
                     rating = 3, note_text = []\<rparr>"

definition nap_three_ten :: SleepRecord where
  "nap_three_ten = \<lparr>sleep = \<lparr>wall = 1704078600000, zone = Some 0\<rparr>,
                     wake = \<lparr>wall = 1704085800000, zone = Some 0\<rparr>,
                     rating = 3, note_text = []\<rparr>"

definition nap_with_seconds :: SleepRecord where
  "nap_with_seconds = \<lparr>sleep = \<lparr>wall = 1704085259000, zone = Some 0\<rparr>,
                        wake = \<lparr>wall = 1704092400000, zone = Some 0\<rparr>,
                        rating = 3, note_text = []\<rparr>"

text \<open>Two records that fall asleep on 2024-01-01 in UTC and whose elapsed durations are
  24 hours apart: from 01:00:30 to 03:00:10 the same day, and from 01:00:10 to 02:59:50
  the next day.\<close>

definition short_two_hours :: SleepRecord where
  "short_two_hours = \<lparr>sleep = \<lparr>wall = 1704070830000, zone = Some 0\<rparr>,
                       wake = \<lparr>wall = 1704078010000, zone = Some 0\<rparr>,
                       rating = 3, note_text = []\<rparr>"

definition long_twenty_six_hours :: SleepRecord where
  "long_twenty_six_hours = \<lparr>sleep = \<lparr>wall = 1704070810000, zone = Some 0\<rparr>,
                             wake = \<lparr>wall = 1704164390000, zone = Some 0\<rparr>,
                             rating = 3, note_text = []\<rparr>"

text \<open>A sleep from 22:00 on 2024-01-01 to 06:00 the next day, in UTC, and one from the same
  22:00 to 06:00 a day later.\<close>

definition ten_to_six :: SleepRecord where
  "ten_to_six = \<lparr>sleep = \<lparr>wall = 1704146400000, zone = Some 0\<rparr>,
                  wake = \<lparr>wall = 1704175200000, zone = Some 0\<rparr>,
                  rating = 3, note_text = []\<rparr>"

definition ten_to_six_a_day_on :: SleepRecord where
  "ten_to_six_a_day_on = \<lparr>sleep = \<lparr>wall = 1704146400000, zone = Some 0\<rparr>,
                           wake = \<lparr>wall = 1704261600000, zone = Some 0\<rparr>,
                           rating = 3, note_text = []\<rparr>"

section \<open>The remainder and the fold\<close>

lemma js_rem_nonneg: "0 \<le> a \<Longrightarrow> 0 < D \<Longrightarrow> js_rem a D = a mod D"
  by (simp add: js_rem_def)

lemma js_rem_neg: "a < 0 \<Longrightarrow> 0 < D \<Longrightarrow> js_rem a D = - ((- a) mod D)"
  by (simp add: js_rem_def)

text \<open>The double remainder of the program is the mathematical modulo.\<close>

lemma js_rem_normalize:
  fixes D :: int
  assumes D: "0 < D"
  shows "js_rem (js_rem x D + D) D = x mod D"
proof (cases "x < 0")
  case True
  define m where "m = (- x) mod D"
  have r: "0 \<le> m" "m < D" using D by (simp_all add: m_def)
  have "js_rem x D = - m" using True D by (simp add: js_rem_neg m_def)
  then have "js_rem (js_rem x D + D) D = (D - m) mod D"
    using r D by (simp add: js_rem_nonneg)
  also have "\<dots> = (- m) mod D"
    by (metis add.commute mod_add_self1 uminus_add_conv_diff)
  also have "\<dots> = x mod D"
    unfolding m_def by (simp add: mod_minus_eq)
  finally show ?thesis .
next
  case False
  then have "js_rem x D = x mod D" using D by (simp add: js_rem_nonneg)
  moreover have "0 \<le> x mod D + D" using D by (simp add: add_nonneg_nonneg)
  ultimately show ?thesis using D by (simp add: js_rem_nonneg)
qed

lemma spec_normalize_mod: "spec_normalize x = x mod 86400000"
  by (simp add: spec_normalize_def)

lemma calculateDrift_body_fold:
  "calculateDrift_body tz entries i (ts, tw, tr) =
     (ts + spec_fold (Date_new tz (sleep (entries ! i)) - Date_new tz (sleep (entries ! (i - 1)))),
      tw + spec_fold (Date_new tz (wake (entries ! i)) - Date_new tz (wake (entries ! (i - 1)))),
      tr + rating (entries ! i))"
  by (simp add: calculateDrift_body_def HOURS_IN_DAY_def js_rem_normalize spec_fold_def
      spec_normalize_mod Let_def)

lemma spec_fold_range: "- 43200000 < spec_fold x \<and> spec_fold x \<le> 43200000"
proof -
  have "0 \<le> x mod 86400000" "x mod 86400000 < 86400000" by simp_all
  then show ?thesis
    unfolding spec_fold_def spec_normalize_mod Let_def by (auto; linarith)
qed

lemma mod_day_neg:
  fixes d :: int
  assumes "- 86400000 \<le> d" "d < 0"
  shows "d mod 86400000 = 86400000 + d"
proof -
  have "d mod 86400000 = (d + 86400000) mod 86400000" by simp
  also have "\<dots> = d + 86400000"
    by (rule mod_pos_pos_trivial) (use assms in linarith)+
  finally show ?thesis by simp
qed

lemma spec_fold_day_plus:
  assumes "- 43200000 < d" "d \<le> 43200000"
  shows "spec_fold (86400000 + d) = d"
proof (cases "0 \<le> d")
  case True
  with assms have "d mod 86400000 = d" by simp
  with assms show ?thesis by (simp add: spec_fold_def spec_normalize_mod Let_def)
next
  case False
  with assms have "d mod 86400000 = 86400000 + d"
    by (intro mod_day_neg) linarith+
  with assms False show ?thesis by (simp add: spec_fold_def spec_normalize_mod Let_def)
qed

section \<open>What the loop of calculateDrift accumulates\<close>

lemma calculateDrift_loop_sums:
  "i \<le> length entries \<Longrightarrow>
   calculateDrift_loop tz entries i (ts, tw, tr) =
     (ts + (\<Sum>k = i..<length entries. pairDrift sleep tz entries k),
      tw + (\<Sum>k = i..<length entries. pairDrift wake tz entries k),
      tr + (\<Sum>k = i..<length entries. rating (entries ! k)))"
proof (induction "length entries - i" arbitrary: i ts tw tr)
  case 0
  then have "i = length entries" by simp
  then show ?case by (subst calculateDrift_loop.simps) simp
next
  case (Suc n)
  then have lt: "i < length entries" and n: "n = length entries - Suc i" by simp_all
  have step: "calculateDrift_loop tz entries i (ts, tw, tr) =
      calculateDrift_loop tz entries (Suc i) (calculateDrift_body tz entries i (ts, tw, tr))"
    using lt by (subst calculateDrift_loop.simps) simp
  have ih: "calculateDrift_loop tz entries (Suc i) (a, b, c) =
     (a + (\<Sum>k = Suc i..<length entries. pairDrift sleep tz entries k),
      b + (\<Sum>k = Suc i..<length entries. pairDrift wake tz entries k),
      c + (\<Sum>k = Suc i..<length entries. rating (entries ! k)))" for a b c
    using Suc.hyps(1)[OF n] lt by simp
  show ?case
    unfolding step calculateDrift_body_fold ih using lt
    by (simp add: sum.atLeast_Suc_lessThan pairDrift_def)
qed

text \<open>With two entries or more, both drifts are the unweighted means of the folded
  per-pair drifts; the rating total leaves out the first entry and is divided by the
  number of entries.\<close>

lemma calculateDrift_means:
  assumes "2 \<le> length entries"
  shows "calculateDrift tz entries =
    \<lparr>sleepDrift = real_of_int (\<Sum>k = 1..<length entries. pairDrift sleep tz entries k)
                   / real (length entries - 1),
     wakeDrift = real_of_int (\<Sum>k = 1..<length entries. pairDrift wake tz entries k)
                   / real (length entries - 1),
     avgRating = real_of_int (\<Sum>k = 1..<length entries. rating (entries ! k))
                   / real (length entries)\<rparr>"
  using assms by (simp add: calculateDrift_def calculateDrift_loop_sums)

lemma pairDrift_range: "- 43200000 < pairDrift f tz es k \<and> pairDrift f tz es k \<le> 43200000"
  unfolding pairDrift_def by (rule spec_fold_range)

lemma mean_in_range:
  fixes v :: "nat \<Rightarrow> int"
  assumes n: "2 \<le> n" and r: "\<And>k. - 43200000 < v k \<and> v k \<le> 43200000"
  shows "- 43200000 < real_of_int (\<Sum>k = 1..<n. v k) / real (n - 1)
       \<and> real_of_int (\<Sum>k = 1..<n. v k) / real (n - 1) \<le> 43200000"
proof -
  have c: "card {1..<n} = n - 1" by simp
  have pos: "0 < real (n - 1)" using n by simp
  have "(\<Sum>k = 1..<n. v k) \<le> of_nat (card {1..<n}) * 43200000"
    by (rule sum_bounded_above) (use r in simp)
  then have "real_of_int (\<Sum>k = 1..<n. v k) \<le> real_of_int (int (n - 1) * 43200000)"
    unfolding c by (simp only: of_int_le_iff of_nat_id)
  then have up: "real_of_int (\<Sum>k = 1..<n. v k) \<le> real (n - 1) * 43200000"
    by simp
  have "of_nat (card {1..<n}) * (- 43199999) \<le> (\<Sum>k = 1..<n. v k)"
  proof (rule sum_bounded_below)
    fix i assume "i \<in> {1..<n}"
    from r[of i] show "- 43199999 \<le> v i" by linarith
  qed
  then have "real_of_int (int (n - 1) * (- 43199999)) \<le> real_of_int (\<Sum>k = 1..<n. v k)"
    unfolding c by (simp only: of_int_le_iff of_nat_id)
  then have "real (n - 1) * (- 43199999) \<le> real_of_int (\<Sum>k = 1..<n. v k)"
    by simp
  moreover have "real (n - 1) * (- 43200000) < real (n - 1) * (- 43199999)"
    using pos by simp
  ultimately have lo: "real (n - 1) * (- 43200000) < real_of_int (\<Sum>k = 1..<n. v k)"
    by linarith
  show ?thesis
    using lo up pos by (simp add: pos_less_divide_eq pos_divide_le_eq mult.commute)
qed

lemma sleepDrift_within_half_day:
  "- 43200000 < sleepDrift (calculateDrift tz entries)
   \<and> sleepDrift (calculateDrift tz entries) \<le> 43200000"
proof (cases "length entries < 2")
  case True
  then show ?thesis by (simp add: calculateDrift_def)
next
  case False
  then have n: "2 \<le> length entries" by simp
  show ?thesis
    unfolding calculateDrift_means[OF n]
    using mean_in_range[OF n, of "pairDrift sleep tz entries"]
    by (simp add: pairDrift_range)
qed

section \<open>The sample nights\<close>

lemma nights_times:
  "Date_new utc (sleep night1) = 0" "Date_new utc (wake night1) = 28800000"
  "Date_new utc (sleep night2) = 88200000" "Date_new utc (wake night2) = 117000000"
  "Date_new utc (sleep night3) = 176400001" "Date_new utc (wake night3) = 205200001"
  by (simp_all add: Date_new_def night1_def night2_def night3_def)

lemma nights_dates: "dateStr utc night1 = 0" "dateStr utc night2 = 1" "dateStr utc night3 = 2"
  by (simp_all add: dateStr_def isoDate_def toISOString_def nights_times)

lemma nights_ratings: "rating night1 = 5" "rating night2 = 5" "rating night3 = 5"
  by (simp_all add: night1_def night2_def night3_def)

lemma calculateDrift_two_nights:
  "calculateDrift utc [night1, night2] =
     \<lparr>sleepDrift = 1800000, wakeDrift = 1800000, avgRating = 5 / 2\<rparr>"
proof -
  have "calculateDrift utc [night1, night2] =
     \<lparr>sleepDrift = real_of_int (pairDrift sleep utc [night1, night2] 1),
      wakeDrift = real_of_int (pairDrift wake utc [night1, night2] 1),
      avgRating = real_of_int (rating night2) / 2\<rparr>"
    using calculateDrift_means[of "[night1, night2]" utc] by simp
  then show ?thesis
    by (simp add: pairDrift_def nights_times nights_ratings spec_fold_def spec_normalize_def)
qed

lemma calculateDrift_three_nights:
  "calculateDrift utc [night1, night2, night3] =
     \<lparr>sleepDrift = 3600001 / 2, wakeDrift = 3600001 / 2, avgRating = 10 / 3\<rparr>"
proof -
  have s: "{1..<3::nat} = {1, 2}" by auto
  have p: "pairDrift sleep utc [night1, night2, night3] 1 = 1800000"
    "pairDrift sleep utc [night1, night2, night3] 2 = 1800001"
    "pairDrift wake utc [night1, night2, night3] 1 = 1800000"
    "pairDrift wake utc [night1, night2, night3] 2 = 1800001"
    by (simp_all add: pairDrift_def nights_times spec_fold_def spec_normalize_def)
  have p': "pairDrift sleep utc [night1, night2, night3] (Suc 0) = 1800000"
    "pairDrift sleep utc [night1, night2, night3] (Suc (Suc 0)) = 1800001"
    "pairDrift wake utc [night1, night2, night3] (Suc 0) = 1800000"
    "pairDrift wake utc [night1, night2, night3] (Suc (Suc 0)) = 1800001"
    using p by (simp_all add: numeral_2_eq_2)
  show ?thesis
    using calculateDrift_means[of "[night1, night2, night3]" utc]
    by (simp add: s p' nights_ratings)
qed

section \<open>Claims on calculateDrift\<close>

text \<open>
  Claim C1. In a list of at least two entries, the round of the loop for the pair
  \<open>(i - 1, i)\<close> adds to each drift total the raw difference of the two time values
  folded as the specification says: normalized into \<open>[0, 24h)\<close>, less 24h when above
  12h. The double truncating remainder of the program agrees with that rule. Summed
  from the first pair on, the loop holds the sum of these folded values. A pair whose
  raw difference is 24h + d, with d in \<open>(-12h, 12h]\<close>, adds exactly d, and a pair
  exactly 24h apart adds 0. What a round adds always lies in \<open>(-12h, 12h]\<close>.
\<close>

theorem calculateDrift_pair_fold:
  assumes "2 \<le> length entries" and "1 \<le> i" and "i < length entries"
  shows "calculateDrift_body tz entries i (ts, tw, tr) =
           (ts + spec_fold (Date_new tz (sleep (entries ! i))
                             - Date_new tz (sleep (entries ! (i - 1)))),
            tw + spec_fold (Date_new tz (wake (entries ! i))
                             - Date_new tz (wake (entries ! (i - 1)))),
            tr + rating (entries ! i))
       \<and> fst (calculateDrift_loop tz entries 1 (0, 0, 0)) =
           (\<Sum>k = 1..<length entries.
              spec_fold (Date_new tz (sleep (entries ! k))
                          - Date_new tz (sleep (entries ! (k - 1)))))
       \<and> (\<forall>d. - 43200000 < d \<and> d \<le> 43200000
              \<and> Date_new tz (sleep (entries ! i)) - Date_new tz (sleep (entries ! (i - 1)))
                  = 86400000 + d
              \<longrightarrow> fst (calculateDrift_body tz entries i (ts, tw, tr)) = ts + d)
       \<and> (Date_new tz (sleep (entries ! i)) - Date_new tz (sleep (entries ! (i - 1)))
            = 86400000
          \<longrightarrow> fst (calculateDrift_body tz entries i (ts, tw, tr)) = ts)
       \<and> - 43200000 < fst (calculateDrift_body tz entries i (ts, tw, tr)) - ts
       \<and> fst (calculateDrift_body tz entries i (ts, tw, tr)) - ts \<le> 43200000"
proof (intro conjI allI impI)
  show "calculateDrift_body tz entries i (ts, tw, tr) =
           (ts + spec_fold (Date_new tz (sleep (entries ! i))
                             - Date_new tz (sleep (entries ! (i - 1)))),
            tw + spec_fold (Date_new tz (wake (entries ! i))
                             - Date_new tz (wake (entries ! (i - 1)))),
            tr + rating (entries ! i))"
    by (rule calculateDrift_body_fold)
next
  have "1 \<le> length entries" using assms(1) by simp
  then show "fst (calculateDrift_loop tz entries 1 (0, 0, 0)) =
           (\<Sum>k = 1..<length entries.
              spec_fold (Date_new tz (sleep (entries ! k))
                          - Date_new tz (sleep (entries ! (k - 1)))))"
    by (simp add: calculateDrift_loop_sums pairDrift_def)
next
  fix d :: int
  assume h: "- 43200000 < d \<and> d \<le> 43200000
     \<and> Date_new tz (sleep (entries ! i)) - Date_new tz (sleep (entries ! (i - 1)))
         = 86400000 + d"
  then have "spec_fold (Date_new tz (sleep (entries ! i))
                 - Date_new tz (sleep (entries ! (i - 1)))) = d"
    using spec_fold_day_plus[of d] by simp
  then show "fst (calculateDrift_body tz entries i (ts, tw, tr)) = ts + d"
    by (simp add: calculateDrift_body_fold)
next
  assume "Date_new tz (sleep (entries ! i)) - Date_new tz (sleep (entries ! (i - 1)))
            = 86400000"
  then have "spec_fold (Date_new tz (sleep (entries ! i))
                 - Date_new tz (sleep (entries ! (i - 1)))) = 0"
    using spec_fold_day_plus[of 0] by simp
  then show "fst (calculateDrift_body tz entries i (ts, tw, tr)) = ts"
    by (simp add: calculateDrift_body_fold)
next
  show "- 43200000 < fst (calculateDrift_body tz entries i (ts, tw, tr)) - ts"
    using spec_fold_range by (simp add: calculateDrift_body_fold)
next
  show "fst (calculateDrift_body tz entries i (ts, tw, tr)) - ts \<le> 43200000"
    using spec_fold_range by (simp add: calculateDrift_body_fold)
qed

theorem calculateDrift_pair_fold_witness:
  "2 \<le> length [night1, night2] \<and> (1::nat) \<le> 1 \<and> (1::nat) < length [night1, night2]
   \<and> Date_new utc (sleep ([night1, night2] ! 1)) - Date_new utc (sleep ([night1, night2] ! (1 - 1)))
       = 86400000 + 1800000
   \<and> fst (calculateDrift_body utc [night1, night2] 1 (0, 0, 0)) = 1800000"
proof -
  have len: "2 \<le> length [night1, night2]" "(1::nat) \<le> 1" "(1::nat) < length [night1, night2]"
    by simp_all
  have raw: "Date_new utc (sleep ([night1, night2] ! 1))
               - Date_new utc (sleep ([night1, night2] ! (1 - 1))) = 86400000 + 1800000"
    by (simp add: night1_def night2_def Date_new_def)
  from calculateDrift_pair_fold[OF len, of utc 0 0 0]
  have "\<forall>d. - 43200000 < d \<and> d \<le> 43200000
          \<and> Date_new utc (sleep ([night1, night2] ! 1))
              - Date_new utc (sleep ([night1, night2] ! (1 - 1))) = 86400000 + d
          \<longrightarrow> fst (calculateDrift_body utc [night1, night2] 1 (0, 0, 0)) = 0 + d"
    by blast
  then have "fst (calculateDrift_body utc [night1, night2] 1 (0, 0, 0)) = 0 + 1800000"
    using raw by (elim allE[of _ 1800000]) simp
  with len raw show ?thesis by simp
qed

text \<open>
  Claim C5. With the two sample nights, both rated 5, the average rating over all
  entries is 5; calculateDrift returns 5/2, because the loop that totals the ratings
  starts at the second entry while the total is divided by the number of entries. The
  two drifts are the means of the per-pair folded drifts, here the single value 30
  minutes.
\<close>

theorem calculateDrift_avgRating_two_nights:
  "calculateDrift utc [night1, night2] =
     \<lparr>sleepDrift = 1800000, wakeDrift = 1800000, avgRating = 5 / 2\<rparr>
   \<and> real_of_int (rating night1 + rating night2) / real (length [night1, night2]) = 5"
proof
  show "calculateDrift utc [night1, night2] =
     \<lparr>sleepDrift = 1800000, wakeDrift = 1800000, avgRating = 5 / 2\<rparr>"
    by (rule calculateDrift_two_nights)
next
  show "real_of_int (rating night1 + rating night2) / real (length [night1, night2]) = 5"
    by (simp add: nights_ratings)
qed

text \<open>
  Claim C6. On the empty list and on a list of one entry calculateDrift returns the
  default: 30 minutes for both drifts and 3 for the rating. The function has no
  failing branch.
\<close>

theorem calculateDrift_default:
  "length entries < 2 \<Longrightarrow>
   calculateDrift tz entries =
     \<lparr>sleepDrift = 1800000, wakeDrift = 1800000, avgRating = 3\<rparr>"
  by (simp add: calculateDrift_def)

theorem calculateDrift_default_witness:
  "length ([] :: SleepRecord list) < 2 \<and> length [night1] < 2
   \<and> calculateDrift utc [] = \<lparr>sleepDrift = 1800000, wakeDrift = 1800000, avgRating = 3\<rparr>
   \<and> calculateDrift utc [night1] = \<lparr>sleepDrift = 1800000, wakeDrift = 1800000, avgRating = 3\<rparr>"
  using calculateDrift_default[of "[]" utc] calculateDrift_default[of "[night1]" utc] by simp

text \<open>
  Claim C9. For every list of entries, both drifts that calculateDrift returns lie in
  \<open>(-12h, 12h]\<close>: the default does, and so does a mean of folded per-pair drifts.
\<close>

theorem calculateDrift_range:
  "- 43200000 < sleepDrift (calculateDrift tz entries)
   \<and> sleepDrift (calculateDrift tz entries) \<le> 43200000
   \<and> - 43200000 < wakeDrift (calculateDrift tz entries)
   \<and> wakeDrift (calculateDrift tz entries) \<le> 43200000"
proof (cases "length entries < 2")
  case True
  then show ?thesis by (simp add: calculateDrift_def)
next
  case False
  then have n: "2 \<le> length entries" by simp
  show ?thesis
    unfolding calculateDrift_means[OF n]
    using mean_in_range[OF n, of "pairDrift sleep tz entries"]
          mean_in_range[OF n, of "pairDrift wake tz entries"]
    by (simp add: pairDrift_range)
qed

section \<open>The cycle length\<close>




lemma js_fmod_small:
  assumes "- 86400000 < t" "t < 86400000"
  shows "js_fmod t 86400000 = t"
proof -
  have "js_trunc (t / 86400000) = 0"
  proof (cases "t < 0")
    case True
    then have "t / 86400000 < 0" by simp
    moreover have "- 1 < t / 86400000" using assms by simp
    ultimately show ?thesis by (simp add: js_trunc_def ceiling_eq_iff)
  next
    case False
    then have "0 \<le> t / 86400000" by simp
    moreover have "t / 86400000 < 1" using assms by simp
    ultimately show ?thesis by (simp add: js_trunc_def floor_eq_iff)
  qed
  then show ?thesis by (simp add: js_fmod_def)
qed

lemma adjustedDrift_small:
  assumes "- 86400000 < t" "t < 86400000"
  shows "adjustedDrift t = t"
  using js_fmod_small[OF assms] by (simp add: adjustedDrift_def HOURS_IN_DAY_def Let_def)




text \<open>Inside updateNon24Info the total drift comes from calculateDrift, so the remainder
  leaves it as it is.\<close>

lemma updateNon24Info_cycleLength:
  assumes "updateNon24Info tz infoBox chart = Some info"
  shows "cycleLength info =
           (if \<bar>totalDrift info\<bar> < 60000 then 0
            else \<bar>Math_round (86400000 / totalDrift info)\<bar>)"
proof -
  define t where
    "t = sleepDrift (calculateDrift tz
           (getMainSleepEntries tz (averagingDays chart) (sleepData chart)))"
  have i: "cycleLength info = cycleDays t" "totalDrift info = t"
    using assms by (auto simp: updateNon24Info_def Let_def t_def split: if_splits)
  have "- 43200000 < t \<and> t \<le> 43200000"
    unfolding t_def by (rule sleepDrift_within_half_day)
  then have "adjustedDrift t = t" by (intro adjustedDrift_small) linarith+
  then show ?thesis by (simp add: i cycleDays_def HOURS_IN_DAY_def)
qed




section \<open>Grouping by day\<close>


lemma Map_set_absent: "map_of m k = None \<Longrightarrow> Map_set k v m = m @ [(k, v)]"
  by (induction m) (auto split: if_splits)

lemma Map_set_keys:
  "map fst (Map_set k v m) = (if k \<in> fst ` set m then map fst m else map fst m @ [k])"
proof (induction m)
  case Nil
  show ?case by simp
next
  case (Cons p m)
  obtain k' v' where p: "p = (k', v')" by (cases p)
  show ?case
  proof (cases "k' = k")
    case True
    then show ?thesis by (simp add: p)
  next
    case False
    then have "k \<in> fst ` set (p # m) \<longleftrightarrow> k \<in> fst ` set m" by (auto simp: p)
    with False Cons show ?thesis by (simp add: p)
  qed
qed

lemma Map_set_subset: "set (Map_set k v m) \<subseteq> insert (k, v) (set m)"
  by (induction m) (auto split: if_splits)

lemma Map_set_concat:
  "map_of m k = Some es \<Longrightarrow>
   mset (concat (map snd (Map_set k (es @ [r]) m))) = mset (concat (map snd m)) + {#r#}"
  by (induction m) (auto split: if_splits)

lemma entriesByDay_add_cases:
  "entriesByDay_add tz m r =
     (case map_of m (dateStr tz r) of
        None \<Rightarrow> m @ [(dateStr tz r, [r])]
      | Some es \<Rightarrow> Map_set (dateStr tz r) (es @ [r]) m)"
proof (cases "map_of m (dateStr tz r)")
  case None
  then have a: "Map_set (dateStr tz r) [] m = m @ [(dateStr tz r, [])]"
    by (rule Map_set_absent)
  have b: "map_of (m @ [(dateStr tz r, [])]) (dateStr tz r) = Some []"
    using None by (simp add: map_add_Some_iff)
  have c: "Map_set (dateStr tz r) [r] (m @ [(dateStr tz r, [])]) = m @ [(dateStr tz r, [r])]"
    using None by (induction m) (auto split: if_splits)
  have "entriesByDay_add tz m r =
      (case map_of (Map_set (dateStr tz r) [] m) (dateStr tz r) of
         None \<Rightarrow> Map_set (dateStr tz r) [] m
       | Some entries \<Rightarrow> Map_set (dateStr tz r) (entries @ [r]) (Map_set (dateStr tz r) [] m))"
    using None by (simp add: entriesByDay_add_def Map_has_def Let_def)
  also have "\<dots> = m @ [(dateStr tz r, [r])]"
    unfolding a b using c by simp
  finally show ?thesis using None by simp
next
  case (Some es)
  then show ?thesis by (simp add: entriesByDay_add_def Map_has_def Let_def)
qed

lemma grouped_add:
  assumes "grouped tz g data"
  shows "grouped tz (entriesByDay_add tz g r) (data @ [r])"
proof (cases "map_of g (dateStr tz r)")
  case None
  then have "dateStr tz r \<notin> fst ` set g" by (simp add: map_of_eq_None_iff)
  with assms None show ?thesis
    by (auto simp: grouped_def entriesByDay_add_cases)
next
  case (Some es)
  then have mem: "(dateStr tz r, es) \<in> set g" by (rule map_of_SomeD)
  then have k: "dateStr tz r \<in> fst ` set g" by force
  have d: "distinct (map fst (Map_set (dateStr tz r) (es @ [r]) g))"
    using assms k by (simp add: Map_set_keys grouped_def)
  have c: "mset (concat (map snd (Map_set (dateStr tz r) (es @ [r]) g))) = mset (data @ [r])"
    using assms Map_set_concat[OF Some] by (simp add: grouped_def)
  have e: "\<forall>(k, es') \<in> set (Map_set (dateStr tz r) (es @ [r]) g).
             es' \<noteq> [] \<and> (\<forall>x \<in> set es'. dateStr tz x = k)"
  proof (clarify)
    fix k' es' assume "(k', es') \<in> set (Map_set (dateStr tz r) (es @ [r]) g)"
    then have "(k', es') = (dateStr tz r, es @ [r]) \<or> (k', es') \<in> set g"
      using Map_set_subset by fastforce
    then show "es' \<noteq> [] \<and> (\<forall>x \<in> set es'. dateStr tz x = k')"
      using assms mem by (fastforce simp: grouped_def)
  qed
  show ?thesis
    unfolding entriesByDay_add_cases Some grouped_def using d c e by simp
qed

lemma grouped_entriesByDay: "grouped tz (entriesByDay tz data) data"
proof (induction data rule: rev_induct)
  case Nil
  show ?case by (simp add: entriesByDay_def grouped_def)
next
  case (snoc r data)
  then show ?case
    using grouped_add[of tz "entriesByDay tz data" data r] by (simp add: entriesByDay_def)
qed



section \<open>Average sleep per day, and the day key\<close>

lemma foldl_add_sum_list:
  fixes a :: int
  shows "foldl (\<lambda>t e. t + f e) a es = a + sum_list (map f es)"
  by (induction es arbitrary: a) simp_all








text \<open>The figure of the info box is this value.\<close>

lemma updateNon24Info_avgSleepPerDay:
  "avgSleepPerDayMs tz infoBox (sleepData chart)
     = map_option avgSleepPerDay (updateNon24Info tz infoBox chart)"
  by (simp add: avgSleepPerDayMs_def updateNon24Info_def Let_def split: prod.splits)




text \<open>
  Claim C8, as stated, fails on the zone. A record that falls asleep at
  2024-01-01T23:30-05:00 is filed under 2024-01-02 (day 19724), the date of that instant
  in UTC; the date its timestamp spells in its own zone is 2024-01-01 (day 19723).
\<close>

theorem entriesByDay_utc_counterexample:
  "map fst (entriesByDay utc [late_evening]) = [19724] \<and> isoDate (sleep late_evening) = 19723"
  by (simp add: entriesByDay_def entriesByDay_add_def Map_has_def dateStr_def isoDate_def
      toISOString_def Date_new_def late_evening_def Let_def)

text \<open>
  Claim C8, amended. For every list of records, grouping files each record in exactly
  one day group: the keys are distinct, the groups together hold the records of the
  input, each as often as the input does, and no group is empty. The key of a group is
  the UTC calendar date of the sleep instant of each of its records, as
  \<^verbatim>\<open>toISOString\<close> prints it; the wake time plays no part. For a timestamp written in
  UTC this is the date the timestamp spells.
\<close>

theorem entriesByDay_one_group:
  "distinct (map fst (entriesByDay tz data))
   \<and> mset (concat (map snd (entriesByDay tz data))) = mset data
   \<and> (\<forall>p \<in> set (entriesByDay tz data).
        snd p \<noteq> [] \<and> (\<forall>r \<in> set (snd p). fst p = Date_new tz (sleep r) div 86400000))
   \<and> (\<forall>r \<in> set data. \<exists>!p. p \<in> set (entriesByDay tz data) \<and> r \<in> set (snd p))
   \<and> dateStr tz (r\<lparr>wake := w\<rparr>) = dateStr tz r
   \<and> (zone (sleep r) = Some 0 \<longrightarrow> dateStr tz r = isoDate (sleep r))"
proof -
  let ?g = "entriesByDay tz data"
  have g: "grouped tz ?g data" by (rule grouped_entriesByDay)
  have k: "dateStr tz x = Date_new tz (sleep x) div 86400000" for x
    by (simp add: dateStr_def isoDate_def toISOString_def)
  have d: "distinct (map fst ?g)" and m: "mset (concat (map snd ?g)) = mset data"
    using g by (simp_all add: grouped_def)
  have key: "snd p \<noteq> [] \<and> (\<forall>r \<in> set (snd p). fst p = dateStr tz r)" if "p \<in> set ?g" for p
    using g that unfolding grouped_def by (cases p) auto
  have one: "\<exists>!p. p \<in> set ?g \<and> x \<in> set (snd p)" if x: "x \<in> set data" for x
  proof -
    have "set (concat (map snd ?g)) = set data" using m by (metis set_mset_mset)
    with x have "x \<in> set (concat (map snd ?g))" by simp
    then obtain p where p: "p \<in> set ?g" "x \<in> set (snd p)" by auto
    show ?thesis
    proof (rule ex1I[of _ p])
      show "p \<in> set ?g \<and> x \<in> set (snd p)" using p by simp
    next
      fix q assume q: "q \<in> set ?g \<and> x \<in> set (snd q)"
      then have "fst q = fst p" using key p by metis
      moreover have "(fst p, snd p) \<in> set ?g" "(fst q, snd q) \<in> set ?g" using p q by simp_all
      ultimately have "snd q = snd p" using d by (metis eq_key_imp_eq_value)
      with \<open>fst q = fst p\<close> show "q = p" by (simp add: prod_eq_iff)
    qed
  qed
  show ?thesis
    using d m key one by (auto simp: k Date_new_def isoDate_def)
qed

theorem entriesByDay_one_group_witness:
  "entriesByDay utc [seven_hours, nine_hours] = [(19723, [seven_hours]), (19724, [nine_hours])]
   \<and> (\<exists>!p. p \<in> set (entriesByDay utc [seven_hours, nine_hours]) \<and> seven_hours \<in> set (snd p))
   \<and> (\<exists>!p. p \<in> set (entriesByDay utc [seven_hours, nine_hours]) \<and> nine_hours \<in> set (snd p))
   \<and> zone (sleep seven_hours) = Some 0 \<and> dateStr utc seven_hours = isoDate (sleep seven_hours)"
proof -
  have d: "dateStr utc seven_hours = 19723" "dateStr utc nine_hours = 19724"
    by (simp_all add: dateStr_def isoDate_def toISOString_def Date_new_def seven_hours_def
        nine_hours_def)
  have g: "entriesByDay utc [seven_hours, nine_hours] = [(19723, [seven_hours]), (19724, [nine_hours])]"
    by (simp add: entriesByDay_def entriesByDay_add_def Map_has_def d Let_def)
  have z: "zone (sleep seven_hours) = Some 0" by (simp add: seven_hours_def)
  from entriesByDay_one_group[where tz = utc and data = "[seven_hours, nine_hours]"
      and r = seven_hours]
  have one: "\<forall>r \<in> set [seven_hours, nine_hours].
          \<exists>!p. p \<in> set (entriesByDay utc [seven_hours, nine_hours]) \<and> r \<in> set (snd p)"
    and same: "zone (sleep seven_hours) = Some 0 \<longrightarrow> dateStr utc seven_hours = isoDate (sleep seven_hours)"
    by blast+
  from one have "\<exists>!p. p \<in> set (entriesByDay utc [seven_hours, nine_hours]) \<and> seven_hours \<in> set (snd p)"
    and "\<exists>!p. p \<in> set (entriesByDay utc [seven_hours, nine_hours]) \<and> nine_hours \<in> set (snd p)"
    by simp_all
  with same g z show ?thesis by blast
qed

section \<open>The main sleep of a day\<close>

text \<open>The binade is the exponent it is meant to be, and rounding a number whose binade
  is known.\<close>

lemma pow2_pos: "0 < pow2 e"
  by (simp add: pow2_def)

lemma bitlen_eqI:
  assumes "2 ^ k \<le> n" and "n < 2 ^ Suc k"
  shows "bitlen n = int k + 1"
proof -
  have pos: "0 < n" using assms(1) by (smt (verit) zero_less_power)
  from bitlen_bounds[OF pos]
  have lo: "2 ^ nat (bitlen n - 1) \<le> n" and hi: "n < 2 ^ nat (bitlen n)" by simp_all
  have "(2::int) ^ k < 2 ^ nat (bitlen n)" using assms(1) hi by linarith
  then have a: "k < nat (bitlen n)" by simp
  have "(2::int) ^ nat (bitlen n - 1) < 2 ^ Suc k" using assms(2) lo by linarith
  then have b: "nat (bitlen n - 1) < Suc k"
    by (rule power_less_imp_less_exp[rotated]) simp
  from a b show ?thesis by linarith
qed

lemma binade_eq:
  assumes lo: "pow2 e \<le> a" and hi: "a < pow2 (e + 1)"
  shows "binade a = e"
proof (cases "1 \<le> a")
  case True
  have e: "0 \<le> e"
  proof (rule ccontr)
    assume "\<not> 0 \<le> e"
    then have "pow2 (e + 1) \<le> 1" by (simp add: pow2_def)
    with hi True show False by simp
  qed
  define k where "k = nat e"
  have ek: "e = int k" using e by (simp add: k_def)
  have l: "(2::real) ^ k \<le> a" using lo e by (simp add: pow2_def k_def)
  have h: "a < (2::real) ^ Suc k" using hi e by (simp add: pow2_def k_def nat_add_distrib)
  have "real_of_int (2 ^ k) \<le> a" using l by simp
  then have l': "2 ^ k \<le> \<lfloor>a\<rfloor>" by (simp only: le_floor_iff)
  have "a < real_of_int (2 ^ Suc k)" using h by simp
  then have h': "\<lfloor>a\<rfloor> < 2 ^ Suc k" by (simp only: floor_less_iff)
  show ?thesis using bitlen_eqI[OF l' h'] True by (simp add: binade_def ek)
next
  case False
  have apos: "0 < a" using lo pow2_pos[of e] by linarith
  have e: "e < 0"
  proof (rule ccontr)
    assume "\<not> e < 0"
    then have "1 \<le> pow2 e" by (simp add: pow2_def)
    with lo False show False by simp
  qed
  define k where "k = nat (- e - 1)"
  have ek: "e = - int (Suc k)" using e by (simp add: k_def)
  have n: "nat (- e) = Suc k" using e by (simp add: k_def)
  have "pow2 e = 1 / 2 ^ Suc k" using e by (simp only: pow2_def n) simp
  then have l: "1 / 2 ^ Suc k \<le> a" using lo by simp
  have "pow2 (e + 1) = 1 / 2 ^ k"
  proof (cases "k = 0")
    case True
    then have "e + 1 = 0" using ek by simp
    then show ?thesis using True by (simp add: pow2_def)
  next
    case False
    then have "\<not> 0 \<le> e + 1" and "nat (- (e + 1)) = k" using ek by simp_all
    then show ?thesis by (simp only: pow2_def if_False)
  qed
  then have h: "a < 1 / 2 ^ k" using hi by simp
  have up: "1 / a \<le> 2 ^ Suc k"
  proof -
    have "1 \<le> a * 2 ^ Suc k" using l by (simp add: field_simps)
    then show ?thesis using apos by (simp add: field_simps)
  qed
  have dn: "2 ^ k < 1 / a"
  proof -
    have "a * 2 ^ k < 1" using h by (simp add: field_simps)
    then show ?thesis using apos by (simp add: field_simps)
  qed
  have "1 / a \<le> real_of_int (2 ^ Suc k)" using up by simp
  then have "\<lceil>1 / a\<rceil> \<le> 2 ^ Suc k" by (simp only: ceiling_le_iff)
  then have h': "\<lceil>1 / a\<rceil> - 1 < 2 ^ Suc k" by simp
  have "real_of_int (2 ^ k) < 1 / a" using dn by simp
  then have "2 ^ k < \<lceil>1 / a\<rceil>" by (simp only: less_ceiling_iff)
  then have l': "2 ^ k \<le> \<lceil>1 / a\<rceil> - 1" by simp
  show ?thesis using bitlen_eqI[OF l' h'] False by (simp add: binade_def ek)
qed

lemma to_double_binade:
  assumes "pow2 e \<le> \<bar>x\<bar>" and "\<bar>x\<bar> < pow2 (e + 1)"
  shows "to_double x = real_of_int (round_half_even (x / pow2 (e - 52))) * pow2 (e - 52)"
proof -
  have "0 < \<bar>x\<bar>" using assms(1) pow2_pos[of e] by linarith
  then show ?thesis
    by (simp add: to_double_def Let_def binade_eq[OF assms])
qed

lemma to_double_0: "to_double 0 = 0"
  by (simp add: to_double_def)

lemma to_double_whole:
  "to_double 1 = 1" "to_double 2 = 2" "to_double 3 = 3" "to_double 5 = 5" "to_double 6 = 6"
  "to_double 7 = 7" "to_double 8 = 8" "to_double 22 = 22" "to_double 30 = 30"
proof -
  show "to_double 1 = 1"
    by (subst to_double_binade[of 0]) (simp_all add: pow2_def round_half_even_def Let_def)
  show "to_double 2 = 2"
    by (subst to_double_binade[of 1]) (simp_all add: pow2_def round_half_even_def Let_def)
  show "to_double 3 = 3"
    by (subst to_double_binade[of 1]) (simp_all add: pow2_def round_half_even_def Let_def)
  show "to_double 5 = 5"
    by (subst to_double_binade[of 2]) (simp_all add: pow2_def round_half_even_def Let_def)
  show "to_double 6 = 6"
    by (subst to_double_binade[of 2]) (simp_all add: pow2_def round_half_even_def Let_def)
  show "to_double 7 = 7"
    by (subst to_double_binade[of 2]) (simp_all add: pow2_def round_half_even_def Let_def)
  show "to_double 8 = 8"
    by (subst to_double_binade[of 3]) (simp_all add: pow2_def round_half_even_def Let_def)
  show "to_double 22 = 22"
    by (subst to_double_binade[of 4]) (simp_all add: pow2_def round_half_even_def Let_def)
  show "to_double 30 = 30"
    by (subst to_double_binade[of 4]) (simp_all add: pow2_def round_half_even_def Let_def)
qed

lemma entryDuration_clock:
  "entryDuration tz e =
     clockDuration (getHours tz (Date_new tz (sleep e))) (getMinutes tz (Date_new tz (sleep e)))
       (getHours tz (Date_new tz (wake e))) (getMinutes tz (Date_new tz (wake e)))"
  by (simp add: entryDuration_def clockDuration_def Let_def)

text \<open>Whole hours are exact.\<close>

lemma clockDuration_1_to_3: "clockDuration 1 0 3 0 = 2"
  by (simp add: clockDuration_def Let_def to_double_0 to_double_whole)

lemma clockDuration_5_to_7: "clockDuration 5 0 7 0 = 2"
  by (simp add: clockDuration_def Let_def to_double_0 to_double_whole)

lemma clockDuration_22_to_6: "clockDuration 22 0 6 0 = 8"
  by (simp add: clockDuration_def Let_def to_double_0 to_double_whole)

text \<open>From 03:10 to 05:10 the two roundings of ten minutes leave one unit in the last
  place: the duration is \<open>2 + 2\<^sup>-\<^sup>5\<^sup>1\<close>.\<close>

lemma clockDuration_0310_to_0510:
  "clockDuration 3 10 5 10 = 4503599627370497 / 2251799813685248"
proof -
  have m: "to_double (real_of_int 10 / 60) = 6004799503160661 / 36028797018963968"
    by (subst to_double_binade[of "- 3"]) (simp_all add: pow2_def round_half_even_def Let_def)
  have s': "to_double (3 + 6004799503160661 / 36028797018963968)
            = 7130699410003285 / 2251799813685248"
    by (subst to_double_binade[of 1]) (simp_all add: pow2_def round_half_even_def Let_def)
  have w': "to_double (5 + 6004799503160661 / 36028797018963968)
            = 5817149518686891 / 1125899906842624"
    by (subst to_double_binade[of 2]) (simp_all add: pow2_def round_half_even_def Let_def)
  have d': "to_double (5817149518686891 / 1125899906842624 - 7130699410003285 / 2251799813685248)
            = 4503599627370497 / 2251799813685248"
    by (subst to_double_binade[of 1]) (simp_all add: pow2_def round_half_even_def Let_def)
  have s: "to_double (real_of_int 3 + to_double (real_of_int 10 / 60))
            = 7130699410003285 / 2251799813685248"
    unfolding m using s' by simp
  have w: "to_double (real_of_int 5 + to_double (real_of_int 10 / 60))
            = 5817149518686891 / 1125899906842624"
    unfolding m using w' by simp
  show ?thesis
    unfolding clockDuration_def Let_def s w using d' by simp
qed

text \<open>From 01:00 to 02:59.\<close>

lemma clockDuration_0100_to_0259:
  "clockDuration 1 0 2 59 = 2233034815237871 / 1125899906842624"
proof -
  have m: "to_double (real_of_int 59 / 60) = 8857079267161975 / 9007199254740992"
    by (subst to_double_binade[of "- 1"]) (simp_all add: pow2_def round_half_even_def Let_def)
  have w': "to_double (2 + 8857079267161975 / 9007199254740992)
            = 3358934722080495 / 1125899906842624"
    by (subst to_double_binade[of 1]) (simp_all add: pow2_def round_half_even_def Let_def)
  have d': "to_double (3358934722080495 / 1125899906842624 - 1)
            = 2233034815237871 / 1125899906842624"
    by (subst to_double_binade[of 0]) (simp_all add: pow2_def round_half_even_def Let_def)
  have w: "to_double (real_of_int 2 + to_double (real_of_int 59 / 60))
            = 3358934722080495 / 1125899906842624"
    unfolding m using w' by simp
  have s: "to_double (real_of_int 1 + to_double (real_of_int 0 / 60)) = 1"
    by (simp add: to_double_0 to_double_whole)
  show ?thesis
    unfolding clockDuration_def Let_def s w using d' by simp
qed

lemma mainSleepOfDay_tie:
  assumes "entryDuration tz b = entryDuration tz a"
  shows "mainSleepOfDay tz [a, b] = Some a"
  using assms by (simp add: mainSleepOfDay_def longest_step_def Let_def)

lemma mainSleepOfDay_later_longer:
  assumes "entryDuration tz a < entryDuration tz b" and "0 < entryDuration tz a"
  shows "mainSleepOfDay tz [a, b] = Some b"
  using assms by (simp add: mainSleepOfDay_def longest_step_def Let_def)

text \<open>The clock of a host with a constant offset.\<close>

lemma getHours_fixedZone: "getHours (fixedZone c) t = ((t + c) div 3600000) mod 24"
  by (simp add: getHours_def fixedZone_def)

lemma getMinutes_fixedZone: "getMinutes (fixedZone c) t = ((t + c) div 60000) mod 60"
  by (simp add: getMinutes_def fixedZone_def)

lemma clock_fixedZone_days:
  "getHours (fixedZone c) (t + 86400000 * k) = getHours (fixedZone c) t"
  "getMinutes (fixedZone c) (t + 86400000 * k) = getMinutes (fixedZone c) t"
proof -
  have "(t + 86400000 * k + c) div 3600000 = (t + c) div 3600000 + 24 * k"
  proof -
    have "t + 86400000 * k + c = (t + c) + (24 * k) * 3600000" by simp
    then show ?thesis by (simp only: div_mult_self1[of 3600000 "t + c" "24 * k"])
  qed
  moreover have "((t + c) div 3600000 + 24 * k) mod 24 = ((t + c) div 3600000) mod 24"
    by (rule mod_mult_self2)
  ultimately show "getHours (fixedZone c) (t + 86400000 * k) = getHours (fixedZone c) t"
    by (simp only: getHours_fixedZone)
  have "(t + 86400000 * k + c) div 60000 = (t + c) div 60000 + 60 * (24 * k)"
  proof -
    have "t + 86400000 * k + c = (t + c) + (1440 * k) * 60000" by simp
    then show ?thesis by (simp only: div_mult_self1[of 60000 "t + c" "1440 * k"])
  qed
  moreover have "((t + c) div 60000 + 60 * (24 * k)) mod 60 = ((t + c) div 60000) mod 60"
    by (rule mod_mult_self2)
  ultimately show "getMinutes (fixedZone c) (t + 86400000 * k) = getMinutes (fixedZone c) t"
    by (simp only: getMinutes_fixedZone)
qed

lemma clock_fixedZone_minute:
  assumes "(u + c) div 60000 = (t + c) div 60000"
  shows "getHours (fixedZone c) u = getHours (fixedZone c) t"
    and "getMinutes (fixedZone c) u = getMinutes (fixedZone c) t"
proof -
  have "(x + c) div 3600000 = ((x + c) div 60000) div 60" for x :: int
    using zdiv_zmult2_eq[of 60 "x + c" 60000] by simp
  then show "getHours (fixedZone c) u = getHours (fixedZone c) t"
    using assms by (simp add: getHours_fixedZone)
  show "getMinutes (fixedZone c) u = getMinutes (fixedZone c) t"
    using assms by (simp add: getMinutes_fixedZone)
qed

lemma entryDuration_same_clock:
  assumes "getHours tz (Date_new tz (sleep b)) = getHours tz (Date_new tz (sleep a))"
    and "getMinutes tz (Date_new tz (sleep b)) = getMinutes tz (Date_new tz (sleep a))"
    and "getHours tz (Date_new tz (wake b)) = getHours tz (Date_new tz (wake a))"
    and "getMinutes tz (Date_new tz (wake b)) = getMinutes tz (Date_new tz (wake a))"
  shows "entryDuration tz b = entryDuration tz a"
  using assms by (simp add: entryDuration_clock)

text \<open>The clock readings of the sample naps, in UTC.\<close>

lemma clock_utc:
  "getHours utc t = (t div 3600000) mod 24" "getMinutes utc t = (t div 60000) mod 60"
  by (simp_all add: utc_def getHours_fixedZone getMinutes_fixedZone)

lemma entryDuration_nap_two_hours: "entryDuration utc nap_two_hours = 2"
  by (simp add: entryDuration_clock clock_utc Date_new_def nap_two_hours_def
      clockDuration_1_to_3)

lemma entryDuration_nap_three_ten:
  "entryDuration utc nap_three_ten = 4503599627370497 / 2251799813685248"
  by (simp add: entryDuration_clock clock_utc Date_new_def nap_three_ten_def
      clockDuration_0310_to_0510)

lemma entryDuration_nap_with_seconds: "entryDuration utc nap_with_seconds = 2"
  by (simp add: entryDuration_clock clock_utc Date_new_def nap_with_seconds_def
      clockDuration_5_to_7)

lemma entryDuration_short_two_hours: "entryDuration utc short_two_hours = 2"
  by (simp add: entryDuration_clock clock_utc Date_new_def short_two_hours_def
      clockDuration_1_to_3)

lemma entryDuration_long_twenty_six_hours:
  "entryDuration utc long_twenty_six_hours = 2233034815237871 / 1125899906842624"
  by (simp add: entryDuration_clock clock_utc Date_new_def long_twenty_six_hours_def
      clockDuration_0100_to_0259)

lemma dateStr_naps:
  "dateStr utc nap_two_hours = 19723" "dateStr utc nap_three_ten = 19723"
  "dateStr utc nap_with_seconds = 19723" "dateStr utc short_two_hours = 19723"
  "dateStr utc long_twenty_six_hours = 19723"
  by (simp_all add: dateStr_def isoDate_def toISOString_def Date_new_def nap_two_hours_def
      nap_three_ten_def nap_with_seconds_def short_two_hours_def long_twenty_six_hours_def)

text \<open>
  Claim C4. The main sleep of a day is not always the entry with the greatest wake
  minus sleep. Two naps of 2024-01-01, each of two hours exactly: 01:00 to 03:00, met
  first, and 03:10 to 05:10. The ranking computes the first duration as 2 and the second
  as \<open>2 + 2\<^sup>-\<^sup>5\<^sup>1\<close>, the roundings of ten minutes as a fraction of an hour not
  cancelling, and the second nap displaces the first although the two tie. And of the
  naps 05:00:59 to 07:00:00, met first, and 01:00 to 03:00, the first is kept although
  it is 59 seconds shorter: the ranking reads hours and minutes only.
\<close>

theorem mainSleepOfDay_not_longest:
  "Date_new utc (wake nap_two_hours) - Date_new utc (sleep nap_two_hours) = 7200000
   \<and> Date_new utc (wake nap_three_ten) - Date_new utc (sleep nap_three_ten) = 7200000
   \<and> entryDuration utc nap_two_hours = 2
   \<and> entryDuration utc nap_three_ten = 4503599627370497 / 2251799813685248
   \<and> mainSleepOfDay utc [nap_two_hours, nap_three_ten] = Some nap_three_ten
   \<and> getMainSleepEntries utc 14 [nap_two_hours, nap_three_ten] = [nap_three_ten]
   \<and> Date_new utc (wake nap_with_seconds) - Date_new utc (sleep nap_with_seconds) = 7141000
   \<and> entryDuration utc nap_with_seconds = 2
   \<and> mainSleepOfDay utc [nap_with_seconds, nap_two_hours] = Some nap_with_seconds
   \<and> getMainSleepEntries utc 14 [nap_with_seconds, nap_two_hours] = [nap_with_seconds]"
proof -
  have g1: "entriesByDay utc [nap_two_hours, nap_three_ten]
              = [(19723, [nap_two_hours, nap_three_ten])]"
    by (simp add: entriesByDay_def entriesByDay_add_def Map_has_def dateStr_naps Let_def)
  have g2: "entriesByDay utc [nap_with_seconds, nap_two_hours]
              = [(19723, [nap_with_seconds, nap_two_hours])]"
    by (simp add: entriesByDay_def entriesByDay_add_def Map_has_def dateStr_naps Let_def)
  have m1: "mainSleepOfDay utc [nap_two_hours, nap_three_ten] = Some nap_three_ten"
    by (rule mainSleepOfDay_later_longer)
      (simp_all add: entryDuration_nap_two_hours entryDuration_nap_three_ten)
  have m2: "mainSleepOfDay utc [nap_with_seconds, nap_two_hours] = Some nap_with_seconds"
    by (rule mainSleepOfDay_tie)
      (simp add: entryDuration_nap_two_hours entryDuration_nap_with_seconds)
  have e1: "getMainSleepEntries utc 14 [nap_two_hours, nap_three_ten] = [nap_three_ten]"
    by (simp add: getMainSleepEntries_def g1 m1 List.map_filter_def Let_def)
  have e2: "getMainSleepEntries utc 14 [nap_with_seconds, nap_two_hours] = [nap_with_seconds]"
    by (simp add: getMainSleepEntries_def g2 m2 List.map_filter_def Let_def)
  have t: "Date_new utc (wake nap_two_hours) - Date_new utc (sleep nap_two_hours) = 7200000"
    "Date_new utc (wake nap_three_ten) - Date_new utc (sleep nap_three_ten) = 7200000"
    "Date_new utc (wake nap_with_seconds) - Date_new utc (sleep nap_with_seconds) = 7141000"
    by (simp_all add: Date_new_def nap_two_hours_def nap_three_ten_def nap_with_seconds_def)
  show ?thesis
    unfolding t m1 m2 e1 e2 entryDuration_nap_two_hours entryDuration_nap_three_ten
      entryDuration_nap_with_seconds
    by simp
qed

text \<open>
  Claim C10, as stated, fails. Two records that fall asleep on the same day: from
  01:00:30 to 03:00:10, an elapsed 1h 59m 40s, and from 01:00:10 to 02:59:50 the next
  day, exactly 24 hours more. The ranking reads 01:00 to 03:00 for the first and 01:00
  to 02:59 for the second: they do not compare as equal, and the shorter displaces the
  longer.
\<close>

theorem entryDuration_whole_days_counterexample:
  "Date_new utc (wake long_twenty_six_hours) - Date_new utc (sleep long_twenty_six_hours)
     = Date_new utc (wake short_two_hours) - Date_new utc (sleep short_two_hours) + 1 * 86400000
   \<and> dateStr utc long_twenty_six_hours = dateStr utc short_two_hours
   \<and> entryDuration utc short_two_hours = 2
   \<and> entryDuration utc long_twenty_six_hours = 2233034815237871 / 1125899906842624
   \<and> entryDuration utc long_twenty_six_hours \<noteq> entryDuration utc short_two_hours
   \<and> mainSleepOfDay utc [long_twenty_six_hours, short_two_hours] = Some short_two_hours"
proof -
  have lt: "entryDuration utc long_twenty_six_hours < entryDuration utc short_two_hours"
    "0 < entryDuration utc long_twenty_six_hours"
    by (simp_all add: entryDuration_short_two_hours entryDuration_long_twenty_six_hours)
  have m: "mainSleepOfDay utc [long_twenty_six_hours, short_two_hours] = Some short_two_hours"
    using lt by (rule mainSleepOfDay_later_longer)
  have t: "Date_new utc (wake long_twenty_six_hours) - Date_new utc (sleep long_twenty_six_hours)
     = Date_new utc (wake short_two_hours) - Date_new utc (sleep short_two_hours) + 1 * 86400000"
    by (simp add: Date_new_def short_two_hours_def long_twenty_six_hours_def)
  from lt(1) have ne: "entryDuration utc long_twenty_six_hours \<noteq> entryDuration utc short_two_hours"
    by simp
  show ?thesis
    using t m ne
    by (simp add: dateStr_naps entryDuration_short_two_hours entryDuration_long_twenty_six_hours)
qed

text \<open>
  Claim C10, amended. The duration that ranks a day's entries is a function of four
  readings of the local clock only: the hour and the minute of the sleep time, the hour
  and the minute of the wake time, with 24 added to the wake reading when it is the
  earlier one, every operation in doubles. Two records with the same four readings get
  the same duration, and neither displaces the other: whichever is met first is kept.
  On a host whose offset from UTC is constant this is so of two records whose sleep
  times and whose wake times fall in the same minutes, and of two records whose sleep
  times differ by whole days and whose wake times differ by whole days, such as an
  8-hour and a 32-hour sleep on the same clock times.
\<close>

theorem entryDuration_clock_only:
  "entryDuration tz e =
     clockDuration (getHours tz (Date_new tz (sleep e))) (getMinutes tz (Date_new tz (sleep e)))
       (getHours tz (Date_new tz (wake e))) (getMinutes tz (Date_new tz (wake e)))
   \<and> (getHours tz (Date_new tz (sleep b)) = getHours tz (Date_new tz (sleep a))
        \<and> getMinutes tz (Date_new tz (sleep b)) = getMinutes tz (Date_new tz (sleep a))
        \<and> getHours tz (Date_new tz (wake b)) = getHours tz (Date_new tz (wake a))
        \<and> getMinutes tz (Date_new tz (wake b)) = getMinutes tz (Date_new tz (wake a))
      \<longrightarrow> entryDuration tz b = entryDuration tz a
          \<and> mainSleepOfDay tz [a, b] = Some a \<and> mainSleepOfDay tz [b, a] = Some b)
   \<and> (tz = fixedZone c
        \<and> (Date_new tz (sleep b) + c) div 60000 = (Date_new tz (sleep a) + c) div 60000
        \<and> (Date_new tz (wake b) + c) div 60000 = (Date_new tz (wake a) + c) div 60000
      \<longrightarrow> entryDuration tz b = entryDuration tz a)
   \<and> (tz = fixedZone c
        \<and> Date_new tz (sleep b) = Date_new tz (sleep a) + 86400000 * j
        \<and> Date_new tz (wake b) = Date_new tz (wake a) + 86400000 * k
      \<longrightarrow> entryDuration tz b = entryDuration tz a
          \<and> mainSleepOfDay tz [a, b] = Some a \<and> mainSleepOfDay tz [b, a] = Some b)"
proof (intro conjI impI)
  show "entryDuration tz e =
     clockDuration (getHours tz (Date_new tz (sleep e))) (getMinutes tz (Date_new tz (sleep e)))
       (getHours tz (Date_new tz (wake e))) (getMinutes tz (Date_new tz (wake e)))"
    by (rule entryDuration_clock)
next
  assume "getHours tz (Date_new tz (sleep b)) = getHours tz (Date_new tz (sleep a))
        \<and> getMinutes tz (Date_new tz (sleep b)) = getMinutes tz (Date_new tz (sleep a))
        \<and> getHours tz (Date_new tz (wake b)) = getHours tz (Date_new tz (wake a))
        \<and> getMinutes tz (Date_new tz (wake b)) = getMinutes tz (Date_new tz (wake a))"
  then show eq: "entryDuration tz b = entryDuration tz a"
    by (intro entryDuration_same_clock) simp_all
  then show "mainSleepOfDay tz [a, b] = Some a" by (rule mainSleepOfDay_tie)
  from eq show "mainSleepOfDay tz [b, a] = Some b" by (intro mainSleepOfDay_tie) simp
next
  assume h: "tz = fixedZone c
        \<and> (Date_new tz (sleep b) + c) div 60000 = (Date_new tz (sleep a) + c) div 60000
        \<and> (Date_new tz (wake b) + c) div 60000 = (Date_new tz (wake a) + c) div 60000"
  then have tz: "tz = fixedZone c" by simp
  note s = h[unfolded tz, THEN conjunct2, THEN conjunct1]
    and w = h[unfolded tz, THEN conjunct2, THEN conjunct2]
  show "entryDuration tz b = entryDuration tz a"
    unfolding tz
    by (rule entryDuration_same_clock)
      (rule clock_fixedZone_minute[OF s] clock_fixedZone_minute[OF w])+
next
  assume h: "tz = fixedZone c
        \<and> Date_new tz (sleep b) = Date_new tz (sleep a) + 86400000 * j
        \<and> Date_new tz (wake b) = Date_new tz (wake a) + 86400000 * k"
  then have tz: "tz = fixedZone c" by simp
  note s = h[unfolded tz, THEN conjunct2, THEN conjunct1]
    and w = h[unfolded tz, THEN conjunct2, THEN conjunct2]
  show eq: "entryDuration tz b = entryDuration tz a"
    unfolding tz
    by (rule entryDuration_same_clock) (simp_all only: s w clock_fixedZone_days)
  then show "mainSleepOfDay tz [a, b] = Some a" by (rule mainSleepOfDay_tie)
  from eq show "mainSleepOfDay tz [b, a] = Some b" by (intro mainSleepOfDay_tie) simp
qed

theorem entryDuration_clock_only_witness:
  "utc = fixedZone 0
   \<and> Date_new utc (sleep ten_to_six_a_day_on) = Date_new utc (sleep ten_to_six) + 86400000 * 0
   \<and> Date_new utc (wake ten_to_six_a_day_on) = Date_new utc (wake ten_to_six) + 86400000 * 1
   \<and> Date_new utc (wake ten_to_six) - Date_new utc (sleep ten_to_six) = 8 * 3600000
   \<and> Date_new utc (wake ten_to_six_a_day_on) - Date_new utc (sleep ten_to_six_a_day_on)
       = 32 * 3600000
   \<and> entryDuration utc ten_to_six = clockDuration 22 0 6 0
   \<and> entryDuration utc ten_to_six_a_day_on = entryDuration utc ten_to_six
   \<and> mainSleepOfDay utc [ten_to_six, ten_to_six_a_day_on] = Some ten_to_six
   \<and> mainSleepOfDay utc [ten_to_six_a_day_on, ten_to_six] = Some ten_to_six_a_day_on"
proof -
  have h: "utc = fixedZone 0
     \<and> Date_new utc (sleep ten_to_six_a_day_on) = Date_new utc (sleep ten_to_six) + 86400000 * 0
     \<and> Date_new utc (wake ten_to_six_a_day_on) = Date_new utc (wake ten_to_six) + 86400000 * 1"
    by (simp add: utc_def Date_new_def ten_to_six_def ten_to_six_a_day_on_def)
  have d: "Date_new utc (wake ten_to_six) - Date_new utc (sleep ten_to_six) = 8 * 3600000"
    "Date_new utc (wake ten_to_six_a_day_on) - Date_new utc (sleep ten_to_six_a_day_on)
       = 32 * 3600000"
    by (simp_all add: Date_new_def ten_to_six_def ten_to_six_a_day_on_def)
  have r: "getHours utc (Date_new utc (sleep ten_to_six)) = 22"
    "getMinutes utc (Date_new utc (sleep ten_to_six)) = 0"
    "getHours utc (Date_new utc (wake ten_to_six)) = 6"
    "getMinutes utc (Date_new utc (wake ten_to_six)) = 0"
    by (simp_all add: clock_utc Date_new_def ten_to_six_def)
  note inst = entryDuration_clock_only[where tz = utc and e = ten_to_six and a = ten_to_six
      and b = ten_to_six_a_day_on and c = 0 and j = 0 and k = 1]
  from inst have c: "entryDuration utc ten_to_six = clockDuration 22 0 6 0"
    unfolding r by blast
  from inst h
  have "entryDuration utc ten_to_six_a_day_on = entryDuration utc ten_to_six
     \<and> mainSleepOfDay utc [ten_to_six, ten_to_six_a_day_on] = Some ten_to_six
     \<and> mainSleepOfDay utc [ten_to_six_a_day_on, ten_to_six] = Some ten_to_six_a_day_on"
    by blast
  with h d c show ?thesis by blast
qed
section \<open>Predictions\<close>

lemma Date_new_toISOString [simp]: "Date_new tz (toISOString t) = t"
  by (simp add: Date_new_def toISOString_def)

lemma prediction_step_wake:
  "Date_new tz (wake (fst (prediction_step tz h m drift avg i prev)))
     = snd (prediction_step tz h m drift avg i prev)"
  by (simp add: prediction_step_def Let_def)

lemma predictions_loop_from:
  "predictions_loop tz h m drift avg days i prev acc
     = acc @ predictions_from tz h m drift avg (days - i) i prev"
proof (induction "days - i" arbitrary: i prev acc)
  case 0
  then show ?case by (subst predictions_loop.simps) simp
next
  case (Suc n)
  then have lt: "i < days" and n: "n = days - Suc i" by simp_all
  have d: "days - i = Suc (days - Suc i)" using lt by simp
  show ?case
    using lt Suc.hyps(1)[OF n]
    by (subst predictions_loop.simps) (simp add: d case_prod_beta)
qed

lemma predictions_from_length [simp]:
  "length (predictions_from tz h m drift avg n i prev) = n"
  by (induction n arbitrary: i prev) simp_all

lemma predictions_from_nth:
  "j < n \<Longrightarrow>
   predictions_from tz h m drift avg n i prev ! j =
     fst (prediction_step tz h m drift avg (i + j)
           (if j = 0 then prev
            else Date_new tz (wake (predictions_from tz h m drift avg n i prev ! (j - 1)))))"
proof (induction n arbitrary: i prev j)
  case 0
  then show ?case by simp
next
  case (Suc n)
  show ?case
  proof (cases j)
    case 0
    then show ?thesis by simp
  next
    case (Suc j')
    then have "j' < n" using Suc.prems by simp
    from Suc.IH[OF this, of "Suc i" "snd (prediction_step tz h m drift avg i prev)"]
    show ?thesis
      using Suc by (cases j') (simp_all add: prediction_step_wake)
  qed
qed

text \<open>On a host whose offset from UTC is the constant \<open>c\<close>, setting the hour and the minute
  keeps the local day, and keeps the seconds and milliseconds.\<close>

lemma anchor_local:
  assumes h: "0 \<le> h" "h < 24" and m: "0 \<le> m" "m < 60"
  shows "setMinutes (fixedZone c) m (setHours (fixedZone c) h t) + c
           = ((t + c) div 86400000 * 24 + h) * 3600000 + m * 60000 + (t + c) mod 60000"
proof -
  define x where "x = t + c"
  define q where "q = x div 86400000"
  define r where "r = x mod 3600000"
  define L where "L = q * 86400000 + h * 3600000 + r"
  have r: "0 \<le> r" "r < 3600000" by (simp_all add: r_def)
  have L: "setHours (fixedZone c) h t + c = L"
    by (simp add: setHours_def fixedZone_def Let_def L_def q_def r_def x_def)
  have d: "L div 3600000 = q * 24 + h"
    by (rule int_div_pos_eq[of _ _ _ r]) (use r in \<open>simp_all add: L_def\<close>)
  have rm: "r mod 60000 = x mod 60000"
    unfolding r_def by (rule mod_mod_cancel) simp
  have "L = 60000 * (q * 1440 + h * 60 + r div 60000) + r mod 60000"
    unfolding L_def using mult_div_mod_eq[of 60000 r] by (simp add: algebra_simps)
  then have md: "L mod 60000 = r mod 60000"
    by (rule int_mod_pos_eq) simp_all
  have "setMinutes (fixedZone c) m (setHours (fixedZone c) h t) + c
          = L div 3600000 * 3600000 + m * 60000 + L mod 60000"
    using L by (simp add: setMinutes_def fixedZone_def Let_def)
  then show ?thesis
    unfolding d md rm by (simp add: q_def x_def)
qed

lemma anchor_clock:
  assumes h: "0 \<le> h" "h < 24" and m: "0 \<le> m" "m < 60"
  shows "getHours (fixedZone c) (setMinutes (fixedZone c) m (setHours (fixedZone c) h t)) = h"
    and "getMinutes (fixedZone c) (setMinutes (fixedZone c) m (setHours (fixedZone c) h t)) = m"
proof -
  define q where "q = (t + c) div 86400000"
  define s where "s = (t + c) mod 60000"
  define A where "A = setMinutes (fixedZone c) m (setHours (fixedZone c) h t) + c"
  have s: "0 \<le> s" "s < 60000" by (simp_all add: s_def)
  have A: "A = (q * 24 + h) * 3600000 + m * 60000 + s"
    unfolding A_def q_def s_def using anchor_local[OF h m] by simp
  have "A div 3600000 = q * 24 + h"
    by (rule int_div_pos_eq[of _ _ _ "m * 60000 + s"]) (use s m in \<open>simp_all add: A\<close>)
  then have "(A div 3600000) mod 24 = h" using h by simp
  then show "getHours (fixedZone c) (setMinutes (fixedZone c) m (setHours (fixedZone c) h t)) = h"
    by (simp add: getHours_fixedZone A_def)
  have "A div 60000 = (q * 24 + h) * 60 + m"
    by (rule int_div_pos_eq[of _ _ _ s]) (use s in \<open>simp_all add: A\<close>)
  moreover have "((q * 24 + h) * 60 + m) mod 60 = m"
    by (rule int_mod_pos_eq[of _ _ "q * 24 + h"]) (use m in simp_all)
  ultimately have "(A div 60000) mod 60 = m" by simp
  then show "getMinutes (fixedZone c) (setMinutes (fixedZone c) m (setHours (fixedZone c) h t)) = m"
    by (simp add: getMinutes_fixedZone A_def)
qed

lemma getHours_range: "0 \<le> getHours tz t \<and> getHours tz t < 24"
  by (simp add: getHours_def)

lemma getMinutes_range: "0 \<le> getMinutes tz t \<and> getMinutes tz t < 60"
  by (simp add: getMinutes_def)

lemma js_trunc_near: "\<bar>real_of_int (js_trunc x) - x\<bar> < 1"
  unfolding js_trunc_def by (auto; linarith)

lemma js_trunc_whole: "x \<in> \<int> \<Longrightarrow> real_of_int (js_trunc x) = x"
  by (auto simp: js_trunc_def elim!: Ints_cases)

text \<open>The loop as a list of rounds, and generatePredictions past its guards.\<close>

lemma predictFrom_from:
  assumes "entries \<noteq> []"
  shows "predictFrom tz days entries =
     Inr (predictions_from tz (getHours tz (Date_new tz (sleep (seedEntry entries))))
            (getMinutes tz (Date_new tz (sleep (seedEntry entries))))
            (calculateDrift tz entries) (avgSleepDurationOf tz entries)
            days 0 (Date_new tz (wake (seedEntry entries))))"
  using assms
  by (simp add: predictFrom_def Let_def seedEntry_def avgSleepDurationOf_def
      foldl_add_sum_list predictions_loop_from)

lemma predictFrom_empty: "predictFrom tz days [] = Inl TypeError"
  by (simp add: predictFrom_def)

lemma generatePredictions_predictFrom:
  assumes "sleepData chart \<noteq> []" and "showPredictions chart" and "predictionDays chart \<noteq> 0"
    and "getMainSleepEntries tz (averagingDays chart) (sleepData chart) \<noteq> []"
  shows "generatePredictions tz chart =
           predictFrom tz (predictionDays chart)
             (getMainSleepEntries tz (averagingDays chart) (displayedData chart))"
  using assms by (simp add: generatePredictions_def)

text \<open>The sample nights.\<close>

lemma night3_at_0101_times:
  "Date_new utc (sleep night3_at_0101) = 176460000"
  "Date_new utc (wake night3_at_0101) = 205260000"
  by (simp_all add: Date_new_def night3_at_0101_def)

lemma calculateDrift_night3_at_0101:
  "calculateDrift utc [night1, night2, night3_at_0101] =
     \<lparr>sleepDrift = 1830000, wakeDrift = 1830000, avgRating = 10 / 3\<rparr>"
proof -
  have s: "{1..<3::nat} = {1, 2}" by auto
  have p: "pairDrift sleep utc [night1, night2, night3_at_0101] 1 = 1800000"
    "pairDrift sleep utc [night1, night2, night3_at_0101] 2 = 1860000"
    "pairDrift wake utc [night1, night2, night3_at_0101] 1 = 1800000"
    "pairDrift wake utc [night1, night2, night3_at_0101] 2 = 1860000"
    by (simp_all add: pairDrift_def nights_times night3_at_0101_times spec_fold_def
        spec_normalize_def)
  have p': "pairDrift sleep utc [night1, night2, night3_at_0101] (Suc 0) = 1800000"
    "pairDrift sleep utc [night1, night2, night3_at_0101] (Suc (Suc 0)) = 1860000"
    "pairDrift wake utc [night1, night2, night3_at_0101] (Suc 0) = 1800000"
    "pairDrift wake utc [night1, night2, night3_at_0101] (Suc (Suc 0)) = 1860000"
    using p by (simp_all add: numeral_2_eq_2)
  have r: "rating night3_at_0101 = 5" by (simp add: night3_at_0101_def)
  show ?thesis
    using calculateDrift_means[of "[night1, night2, night3_at_0101]" utc]
    by (simp add: s p' nights_ratings r)
qed

lemma set_utc:
  "setHours utc h t = (t div 86400000) * 86400000 + h * 3600000 + t mod 3600000"
  "setMinutes utc m t = (t div 3600000) * 3600000 + m * 60000 + t mod 60000"
  by (simp_all add: setHours_def setMinutes_def utc_def fixedZone_def Let_def)

lemma predictFrom_two_nights:
  "predictFrom utc 2 [night1, night2] =
     Inr [predicted 147600000 176400000, predicted 235800000 264600000]"
proof -
  have hm: "getHours utc 88200000 = 0" "getMinutes utc 88200000 = 30"
    by (simp_all add: clock_utc)
  have s0: "prediction_step utc 0 30
              \<lparr>sleepDrift = 1800000, wakeDrift = 1800000, avgRating = 5 / 2\<rparr>
              28800000 0 117000000 = (predicted 147600000 176400000, 176400000)"
    by (simp add: prediction_step_def set_utc HOURS_IN_DAY_def js_trunc_def
        Math_round_def predicted_def Let_def)
  have s1: "prediction_step utc 0 30
              \<lparr>sleepDrift = 1800000, wakeDrift = 1800000, avgRating = 5 / 2\<rparr>
              28800000 (Suc 0) 176400000 = (predicted 235800000 264600000, 264600000)"
    by (simp add: prediction_step_def set_utc HOURS_IN_DAY_def js_trunc_def
        Math_round_def predicted_def Let_def)
  have two: "(2::nat) = Suc (Suc 0)" by simp
  show ?thesis
    unfolding predictFrom_def Let_def calculateDrift_two_nights predictions_loop_from
    by (simp add: nights_times hm two s0 s1)
qed

lemma predictFrom_three_nights:
  "predictFrom utc 1 [night1, night2, night3] = Inr [predicted 235800001 264600001]"
proof -
  have hm: "getHours utc 176400001 = 1" "getMinutes utc 176400001 = 0"
    by (simp_all add: clock_utc)
  have s0: "prediction_step utc 1 0
              \<lparr>sleepDrift = 3600001 / 2, wakeDrift = 3600001 / 2, avgRating = 10 / 3\<rparr>
              28800000 0 205200001 = (predicted 235800001 264600001, 264600001)"
    by (simp add: prediction_step_def set_utc HOURS_IN_DAY_def js_trunc_def
        Math_round_def predicted_def Let_def)
  show ?thesis
    unfolding predictFrom_def Let_def calculateDrift_three_nights predictions_loop_from
    by (simp add: nights_times hm s0)
qed

lemma predictFrom_night3_at_0101:
  "predictFrom utc 2 [night1, night2, night3_at_0101] =
     Inr [predicted 235890000 264690000, predicted 324150000 352950000]"
proof -
  have hm: "getHours utc 176460000 = 1" "getMinutes utc 176460000 = 1"
    by (simp_all add: clock_utc)
  have s0: "prediction_step utc 1 1
              \<lparr>sleepDrift = 1830000, wakeDrift = 1830000, avgRating = 10 / 3\<rparr>
              28800000 0 205260000 = (predicted 235890000 264690000, 264690000)"
    by (simp add: prediction_step_def set_utc HOURS_IN_DAY_def js_trunc_def
        Math_round_def predicted_def Let_def)
  have s1: "prediction_step utc 1 1
              \<lparr>sleepDrift = 1830000, wakeDrift = 1830000, avgRating = 10 / 3\<rparr>
              28800000 (Suc 0) 264690000 = (predicted 324150000 352950000, 352950000)"
    by (simp add: prediction_step_def set_utc HOURS_IN_DAY_def js_trunc_def
        Math_round_def predicted_def Let_def)
  have two: "(2::nat) = Suc (Suc 0)" by simp
  show ?thesis
    unfolding predictFrom_def Let_def calculateDrift_night3_at_0101 predictions_loop_from
    by (simp add: nights_times night3_at_0101_times hm two s0 s1)
qed

text \<open>
  Claim C2, as stated, fails twice. First by a fraction of a millisecond: three nights
  whose sleep times advance by 24h 30m and by 24h 30m 0.001s have a drift of 1800000.5
  ms; the first prediction anchors at 262800001 ms, anchor plus drift is 264600001.5,
  and the wake time stored is 264600001, because a \<^verbatim>\<open>Date\<close> holds whole milliseconds.
  Then by the seconds that setting the hour and the minute keeps: three nights that
  begin at 00:00, 00:30 and 01:01 seed the pattern 01:01 with a drift of 30m 30s; the
  first prediction wakes at 01:31:30, the second anchors at 01:01:30 and wakes at
  02:02:30, 7350000 ms into its day, while the seed pattern plus twice the drift is
  02:02:00, 7320000 ms.
\<close>

theorem predictFrom_clock_position_counterexample:
  "predictFrom utc 1 [night1, night2, night3] = Inr [predicted 235800001 264600001]
   \<and> Date_new utc (wake (predicted 235800001 264600001)) = 264600001
   \<and> real_of_int (anchoredTime utc [night1, night2, night3]
                    (prevWakeOf utc [night1, night2, night3] [] 0))
        + visibleDrift utc [night1, night2, night3] * real (0 + 1) = 529200003 / 2
   \<and> predictFrom utc 2 [night1, night2, night3_at_0101]
        = Inr [predicted 235890000 264690000, predicted 324150000 352950000]
   \<and> Date_new utc (wake (predicted 324150000 352950000)) mod 86400000 = 7350000
   \<and> real_of_int (getHours utc (Date_new utc (sleep (seedEntry [night1, night2, night3_at_0101])))
                    * 3600000
                  + getMinutes utc (Date_new utc (sleep (seedEntry [night1, night2, night3_at_0101])))
                    * 60000)
        + visibleDrift utc [night1, night2, night3_at_0101] * 2 = 7320000"
proof (intro conjI)
  show "predictFrom utc 1 [night1, night2, night3] = Inr [predicted 235800001 264600001]"
    by (rule predictFrom_three_nights)
  show "Date_new utc (wake (predicted 235800001 264600001)) = 264600001"
    by (simp add: predicted_def)
  have "anchoredTime utc [night1, night2, night3]
          (prevWakeOf utc [night1, night2, night3] [] 0) = 262800001"
    by (simp add: anchoredTime_def prevWakeOf_def seedEntry_def nights_times clock_utc set_utc)
  then show "real_of_int (anchoredTime utc [night1, night2, night3]
                    (prevWakeOf utc [night1, night2, night3] [] 0))
        + visibleDrift utc [night1, night2, night3] * real (0 + 1) = 529200003 / 2"
    by (simp add: visibleDrift_def calculateDrift_three_nights)
  show "predictFrom utc 2 [night1, night2, night3_at_0101]
        = Inr [predicted 235890000 264690000, predicted 324150000 352950000]"
    by (rule predictFrom_night3_at_0101)
  show "Date_new utc (wake (predicted 324150000 352950000)) mod 86400000 = 7350000"
    by (simp add: predicted_def)
  show "real_of_int (getHours utc (Date_new utc (sleep (seedEntry [night1, night2, night3_at_0101])))
                    * 3600000
                  + getMinutes utc (Date_new utc (sleep (seedEntry [night1, night2, night3_at_0101])))
                    * 60000)
        + visibleDrift utc [night1, night2, night3_at_0101] * 2 = 7320000"
    by (simp add: seedEntry_def night3_at_0101_times clock_utc visibleDrift_def
        calculateDrift_night3_at_0101)
qed

text \<open>
  Claim C2, amended. Given a non-empty list of main sleep entries, the prediction
  returns one entry for each prediction day, and for every step \<open>i\<close> (from 0): the
  predicted wake time is the anchored time plus the drift times \<open>i + 1\<close>, truncated
  toward zero to a whole millisecond, where the anchored time is the previous wake time
  (the last entry's wake time for the first step, the previous prediction's wake time
  after it) plus 24h, with the hour and then the minute of the local clock set to those
  of the last entry's sleep time; the predicted sleep time is that wake time minus the
  average sleep duration, truncated likewise. The stored wake time is less than a
  millisecond from anchor plus drift times \<open>i + 1\<close>, and equal to it when that product is
  a whole number of milliseconds. On a host whose offset from UTC is constant, the
  anchored time reads the seed's hour and minute on the local clock and lies on the
  local day of the previous wake time plus 24h, at the seed's hour and minute and the
  seconds and milliseconds of the previous wake time: each step starts again from the
  seed's hour and minute, keeps the seconds it inherits, and carries \<open>i + 1\<close> drifts.
\<close>

theorem predictFrom_step:
  assumes "entries \<noteq> []" and "i < days"
  shows "\<exists>ps. predictFrom tz days entries = Inr ps \<and> length ps = days
       \<and> Date_new tz (wake (ps ! i)) =
           js_trunc (real_of_int (anchoredTime tz entries (prevWakeOf tz entries ps i))
                      + visibleDrift tz entries * real (i + 1))
       \<and> Date_new tz (sleep (ps ! i)) =
           js_trunc (real_of_int (Date_new tz (wake (ps ! i))) - avgSleepDurationOf tz entries)
       \<and> \<bar>real_of_int (Date_new tz (wake (ps ! i)))
            - (real_of_int (anchoredTime tz entries (prevWakeOf tz entries ps i))
                + visibleDrift tz entries * real (i + 1))\<bar> < 1
       \<and> (visibleDrift tz entries * real (i + 1) \<in> \<int> \<longrightarrow>
            real_of_int (Date_new tz (wake (ps ! i))) =
              real_of_int (anchoredTime tz entries (prevWakeOf tz entries ps i))
                + visibleDrift tz entries * real (i + 1))
       \<and> (avgSleepDurationOf tz entries \<in> \<int> \<longrightarrow>
            real_of_int (Date_new tz (sleep (ps ! i))) =
              real_of_int (Date_new tz (wake (ps ! i))) - avgSleepDurationOf tz entries)
       \<and> (tz = fixedZone c \<longrightarrow>
            getHours tz (anchoredTime tz entries (prevWakeOf tz entries ps i))
              = getHours tz (Date_new tz (sleep (seedEntry entries)))
            \<and> getMinutes tz (anchoredTime tz entries (prevWakeOf tz entries ps i))
              = getMinutes tz (Date_new tz (sleep (seedEntry entries)))
            \<and> anchoredTime tz entries (prevWakeOf tz entries ps i) + c
              = (prevWakeOf tz entries ps i + 86400000 + c) div 86400000 * 86400000
                + getHours tz (Date_new tz (sleep (seedEntry entries))) * 3600000
                + getMinutes tz (Date_new tz (sleep (seedEntry entries))) * 60000
                + (prevWakeOf tz entries ps i + c) mod 60000)"
proof -
  let ?h = "getHours tz (Date_new tz (sleep (seedEntry entries)))"
  let ?m = "getMinutes tz (Date_new tz (sleep (seedEntry entries)))"
  let ?d = "calculateDrift tz entries"
  let ?avg = "avgSleepDurationOf tz entries"
  define ps where "ps = predictions_from tz ?h ?m ?d ?avg days 0
                          (Date_new tz (wake (seedEntry entries)))"
  let ?p = "prevWakeOf tz entries ps i"
  let ?a = "anchoredTime tz entries ?p"
  let ?x = "real_of_int ?a + visibleDrift tz entries * real (i + 1)"
  have ret: "predictFrom tz days entries = Inr ps"
    unfolding ps_def using assms(1) by (rule predictFrom_from)
  have len: "length ps = days" by (simp add: ps_def)
  have nth: "ps ! i = fst (prediction_step tz ?h ?m ?d ?avg i ?p)"
    using predictions_from_nth[OF assms(2), of tz ?h ?m ?d ?avg 0
        "Date_new tz (wake (seedEntry entries))"]
    unfolding ps_def[symmetric] by (simp add: prevWakeOf_def)
  have w: "Date_new tz (wake (ps ! i)) = js_trunc ?x"
    unfolding nth
    by (simp add: prediction_step_def Let_def anchoredTime_def visibleDrift_def HOURS_IN_DAY_def)
  have s: "Date_new tz (sleep (ps ! i)) = js_trunc (real_of_int (js_trunc ?x) - ?avg)"
    unfolding nth
    by (simp add: prediction_step_def Let_def anchoredTime_def visibleDrift_def HOURS_IN_DAY_def)
  have hr: "0 \<le> ?h" "?h < 24" and mr: "0 \<le> ?m" "?m < 60"
    using getHours_range getMinutes_range by simp_all
  have near: "\<bar>real_of_int (js_trunc ?x) - ?x\<bar> < 1" by (rule js_trunc_near)
  have whole: "real_of_int (js_trunc ?x) = ?x" if "visibleDrift tz entries * real (i + 1) \<in> \<int>"
    by (rule js_trunc_whole) (use that in simp)
  have whole2: "real_of_int (js_trunc (real_of_int (js_trunc ?x) - ?avg))
                  = real_of_int (js_trunc ?x) - ?avg" if "?avg \<in> \<int>"
    by (rule js_trunc_whole) (use that in simp)
  have fixed: "getHours tz ?a = ?h \<and> getMinutes tz ?a = ?m
       \<and> ?a + c = (?p + 86400000 + c) div 86400000 * 86400000 + ?h * 3600000 + ?m * 60000
                   + (?p + c) mod 60000"
    if tz: "tz = fixedZone c"
  proof -
    have a: "?a = setMinutes (fixedZone c) ?m (setHours (fixedZone c) ?h (?p + 86400000))"
      by (simp add: anchoredTime_def tz[symmetric])
    have "(?p + 86400000 + c) mod 60000 = (?p + c) mod 60000"
    proof -
      have "?p + 86400000 + c = (?p + c) + 1440 * 60000" by simp
      then show ?thesis by (simp only: mod_mult_self1)
    qed
    then have "?a + c = (?p + 86400000 + c) div 86400000 * 86400000 + ?h * 3600000
                 + ?m * 60000 + (?p + c) mod 60000"
      unfolding a using anchor_local[OF hr mr, of c "?p + 86400000"] by simp
    moreover have "getHours tz ?a = ?h"
      unfolding a using anchor_clock(1)[OF hr mr, of c "?p + 86400000"] tz by simp
    moreover have "getMinutes tz ?a = ?m"
      unfolding a using anchor_clock(2)[OF hr mr, of c "?p + 86400000"] tz by simp
    ultimately show ?thesis by simp
  qed
  have "predictFrom tz days entries = Inr ps \<and> length ps = days
       \<and> Date_new tz (wake (ps ! i)) = js_trunc ?x
       \<and> Date_new tz (sleep (ps ! i)) =
           js_trunc (real_of_int (Date_new tz (wake (ps ! i))) - ?avg)
       \<and> \<bar>real_of_int (Date_new tz (wake (ps ! i))) - ?x\<bar> < 1
       \<and> (visibleDrift tz entries * real (i + 1) \<in> \<int> \<longrightarrow>
            real_of_int (Date_new tz (wake (ps ! i))) = ?x)
       \<and> (?avg \<in> \<int> \<longrightarrow>
            real_of_int (Date_new tz (sleep (ps ! i))) =
              real_of_int (Date_new tz (wake (ps ! i))) - ?avg)
       \<and> (tz = fixedZone c \<longrightarrow>
            getHours tz ?a = ?h \<and> getMinutes tz ?a = ?m
            \<and> ?a + c = (?p + 86400000 + c) div 86400000 * 86400000 + ?h * 3600000
                        + ?m * 60000 + (?p + c) mod 60000)"
    unfolding s w using ret len near whole whole2 fixed by blast
  then show ?thesis by (rule exI)
qed

theorem predictFrom_step_witness:
  "[night1, night2] \<noteq> [] \<and> (1::nat) < 2 \<and> utc = fixedZone 0
   \<and> predictFrom utc 2 [night1, night2]
       = Inr [predicted 147600000 176400000, predicted 235800000 264600000]
   \<and> prevWakeOf utc [night1, night2]
        [predicted 147600000 176400000, predicted 235800000 264600000] 1 = 176400000
   \<and> anchoredTime utc [night1, night2] 176400000 = 261000000
   \<and> visibleDrift utc [night1, night2] * real (1 + 1) = 3600000
   \<and> avgSleepDurationOf utc [night1, night2] = 28800000
   \<and> Date_new utc (wake ([predicted 147600000 176400000, predicted 235800000 264600000] ! 1))
       = js_trunc (real_of_int (anchoredTime utc [night1, night2] 176400000)
                    + visibleDrift utc [night1, night2] * real (1 + 1))
   \<and> real_of_int (Date_new utc
        (wake ([predicted 147600000 176400000, predicted 235800000 264600000] ! 1)))
       = real_of_int (anchoredTime utc [night1, night2] 176400000)
         + visibleDrift utc [night1, night2] * real (1 + 1)
   \<and> real_of_int (Date_new utc
        (sleep ([predicted 147600000 176400000, predicted 235800000 264600000] ! 1)))
       = real_of_int (Date_new utc
           (wake ([predicted 147600000 176400000, predicted 235800000 264600000] ! 1)))
         - avgSleepDurationOf utc [night1, night2]
   \<and> getHours utc (anchoredTime utc [night1, night2] 176400000)
       = getHours utc (Date_new utc (sleep (seedEntry [night1, night2])))
   \<and> getMinutes utc (anchoredTime utc [night1, night2] 176400000)
       = getMinutes utc (Date_new utc (sleep (seedEntry [night1, night2])))"
proof -
  let ?ps = "[predicted 147600000 176400000, predicted 235800000 264600000]"
  let ?es = "[night1, night2]"
  have g: "predictFrom utc 2 ?es = Inr ?ps" by (rule predictFrom_two_nights)
  have z: "utc = fixedZone 0" by (rule utc_def)
  have p: "prevWakeOf utc ?es ?ps 1 = 176400000"
    by (simp add: prevWakeOf_def predicted_def)
  have a: "anchoredTime utc ?es 176400000 = 261000000"
    by (simp add: anchoredTime_def seedEntry_def nights_times clock_utc set_utc)
  have d: "visibleDrift utc ?es * real (1 + 1) = 3600000"
    by (simp add: visibleDrift_def calculateDrift_two_nights)
  have v: "avgSleepDurationOf utc ?es = 28800000"
    by (simp add: avgSleepDurationOf_def nights_times)
  have w: "visibleDrift utc ?es * real (1 + 1) \<in> \<int>" unfolding d by simp
  have v': "avgSleepDurationOf utc ?es \<in> \<int>" unfolding v by simp
  have ne: "?es \<noteq> []" and lt: "(1::nat) < 2" by simp_all
  from predictFrom_step[OF ne lt, of utc 0]
  obtain ps where ps: "predictFrom utc 2 ?es = Inr ps"
    and r: "Date_new utc (wake (ps ! 1)) =
           js_trunc (real_of_int (anchoredTime utc ?es (prevWakeOf utc ?es ps 1))
                      + visibleDrift utc ?es * real (1 + 1))"
      "visibleDrift utc ?es * real (1 + 1) \<in> \<int> \<longrightarrow>
            real_of_int (Date_new utc (wake (ps ! 1))) =
              real_of_int (anchoredTime utc ?es (prevWakeOf utc ?es ps 1))
                + visibleDrift utc ?es * real (1 + 1)"
      "avgSleepDurationOf utc ?es \<in> \<int> \<longrightarrow>
            real_of_int (Date_new utc (sleep (ps ! 1))) =
              real_of_int (Date_new utc (wake (ps ! 1))) - avgSleepDurationOf utc ?es"
      "utc = fixedZone 0 \<longrightarrow>
            getHours utc (anchoredTime utc ?es (prevWakeOf utc ?es ps 1))
              = getHours utc (Date_new utc (sleep (seedEntry ?es)))
            \<and> getMinutes utc (anchoredTime utc ?es (prevWakeOf utc ?es ps 1))
              = getMinutes utc (Date_new utc (sleep (seedEntry ?es)))"
    by blast
  from ps g have e: "ps = ?ps" by simp
  note r' = r[unfolded e p]
  from r'(2) w[unfolded p] r'(3) v' r'(4) z
  have "real_of_int (Date_new utc (wake (?ps ! 1)))
       = real_of_int (anchoredTime utc ?es 176400000) + visibleDrift utc ?es * real (1 + 1)"
    and "real_of_int (Date_new utc (sleep (?ps ! 1)))
       = real_of_int (Date_new utc (wake (?ps ! 1))) - avgSleepDurationOf utc ?es"
    and "getHours utc (anchoredTime utc ?es 176400000)
       = getHours utc (Date_new utc (sleep (seedEntry ?es)))"
    and "getMinutes utc (anchoredTime utc ?es 176400000)
       = getMinutes utc (Date_new utc (sleep (seedEntry ?es)))"
    by blast+
  with ne lt z g p a d v r'(1) show ?thesis by blast
qed
end
